theory Spec2Isabelle
  imports Complex_Main
begin

section \<open>Numeric values\<close>

text \<open>
  The program computes on numpy arrays of float64 and on Python floats. The
  embedding keeps the special values of that arithmetic and idealises the rest:
  a finite value is a real number and finite arithmetic is exact (no rounding,
  no overflow, one unsigned zero read as +0); \<open>PInf\<close>, \<open>NInf\<close> and \<open>NaN\<close> are the
  two infinities and not-a-number, combined by the IEEE 754 rules. numpy never
  raises on these values: an invalid operation yields \<open>NaN\<close>, a division of a
  non-zero value by zero yields an infinity.
\<close>

datatype npfloat = Fin real | PInf | NInf | NaN

text \<open>The exceptions the modelled code can raise.\<close>

datatype py_error = ValueError | IndexError | ZeroDivisionError

fun np_neg :: "npfloat \<Rightarrow> npfloat" where
  "np_neg (Fin a) = Fin (- a)"
| "np_neg PInf = NInf"
| "np_neg NInf = PInf"
| "np_neg NaN = NaN"

fun np_add :: "npfloat \<Rightarrow> npfloat \<Rightarrow> npfloat" where
  "np_add (Fin a) (Fin b) = Fin (a + b)"
| "np_add NaN _ = NaN"
| "np_add _ NaN = NaN"
| "np_add PInf NInf = NaN"
| "np_add NInf PInf = NaN"
| "np_add PInf _ = PInf"
| "np_add _ PInf = PInf"
| "np_add NInf _ = NInf"
| "np_add _ NInf = NInf"

definition np_sub :: "npfloat \<Rightarrow> npfloat \<Rightarrow> npfloat" where
  "np_sub x y = np_add x (np_neg y)"

text \<open>
  The infinity of a given sign; \<open>NaN\<close> for the sign of zero (an
  infinity times zero).
\<close>

definition np_signed_inf :: "real \<Rightarrow> npfloat" where
  "np_signed_inf r = (if r = 0 then NaN else if 0 < r then PInf else NInf)"

fun np_mul :: "npfloat \<Rightarrow> npfloat \<Rightarrow> npfloat" where
  "np_mul (Fin a) (Fin b) = Fin (a * b)"
| "np_mul NaN _ = NaN"
| "np_mul _ NaN = NaN"
| "np_mul (Fin a) PInf = np_signed_inf a"
| "np_mul (Fin a) NInf = np_signed_inf (- a)"
| "np_mul PInf (Fin b) = np_signed_inf b"
| "np_mul NInf (Fin b) = np_signed_inf (- b)"
| "np_mul PInf PInf = PInf"
| "np_mul PInf NInf = NInf"
| "np_mul NInf PInf = NInf"
| "np_mul NInf NInf = PInf"

text \<open>
  numpy division: no exception. A finite non-zero value over zero is an
  infinity, zero over zero is \<open>NaN\<close>, a finite value over an infinity is zero.
\<close>

fun np_div :: "npfloat \<Rightarrow> npfloat \<Rightarrow> npfloat" where
  "np_div NaN _ = NaN"
| "np_div _ NaN = NaN"
| "np_div (Fin a) (Fin b) =
     (if b \<noteq> 0 then Fin (a / b)
      else if a = 0 then NaN else if 0 < a then PInf else NInf)"
| "np_div (Fin a) _ = Fin 0"
| "np_div x (Fin b) = (if 0 \<le> b then x else np_neg x)"
| "np_div _ _ = NaN"

fun np_sin :: "npfloat \<Rightarrow> npfloat" where
  "np_sin (Fin a) = Fin (sin a)"
| "np_sin _ = NaN"

fun np_cos :: "npfloat \<Rightarrow> npfloat" where
  "np_cos (Fin a) = Fin (cos a)"
| "np_cos _ = NaN"

text \<open>
  \<open>np.arccos\<close> returns \<open>NaN\<close> (with a warning, not an
  exception) outside [-1, 1].
\<close>

fun np_arccos :: "npfloat \<Rightarrow> npfloat" where
  "np_arccos (Fin a) = (if - 1 \<le> a \<and> a \<le> 1 then Fin (arccos a) else NaN)"
| "np_arccos _ = NaN"

text \<open>Comparisons: every comparison with \<open>NaN\<close> is false.\<close>

fun np_lt :: "npfloat \<Rightarrow> npfloat \<Rightarrow> bool" where
  "np_lt NaN _ = False"
| "np_lt _ NaN = False"
| "np_lt (Fin a) (Fin b) = (a < b)"
| "np_lt _ NInf = False"
| "np_lt PInf _ = False"
| "np_lt _ _ = True"

fun np_le :: "npfloat \<Rightarrow> npfloat \<Rightarrow> bool" where
  "np_le NaN _ = False"
| "np_le _ NaN = False"
| "np_le x y = (\<not> np_lt y x)"

definition np_eq :: "npfloat \<Rightarrow> npfloat \<Rightarrow> bool" where
  "np_eq x y = (x \<noteq> NaN \<and> x = y)"

section \<open>Errors and arrays\<close>

definition bind_err :: "py_error + 'a \<Rightarrow> ('a \<Rightarrow> py_error + 'b) \<Rightarrow> py_error + 'b" where
  "bind_err r k = (case r of Inl e \<Rightarrow> Inl e | Inr v \<Rightarrow> k v)"

text \<open>\<open>xs[i]\<close> for a non-negative index: IndexError out of range.\<close>

definition index_np :: "npfloat list \<Rightarrow> nat \<Rightarrow> py_error + npfloat" where
  "index_np xs i = (if i < length xs then Inr (xs ! i) else Inl IndexError)"

text \<open>
  An elementwise binary operation on two one-dimensional arrays, with numpy's
  broadcasting: equal lengths, or one operand of length one; any other pair of
  shapes raises ValueError.
\<close>

definition np_broadcast2 ::
  "(npfloat \<Rightarrow> npfloat \<Rightarrow> npfloat) \<Rightarrow> npfloat list \<Rightarrow> npfloat list \<Rightarrow> py_error + npfloat list" where
  "np_broadcast2 f xs ys =
     (if length xs = length ys then Inr (map2 f xs ys)
      else if length xs = 1 then Inr (map (f (hd xs)) ys)
      else if length ys = 1 then Inr (map (\<lambda>x. f x (hd ys)) xs)
      else Inl ValueError)"

subsection \<open>np.interp\<close>

text \<open>
  \<open>np.interp(x, xp, fp)\<close> for a scalar \<open>x\<close> is numpy's compiled routine: it
  finds an index \<open>j\<close> with \<open>binary_search_with_guess\<close> and interpolates on the
  segment from \<open>j\<close> to \<open>j + 1\<close>. The routine is transcribed here as it runs,
  because numpy does not check that \<open>xp\<close> is increasing and the index it finds
  on any other table is a matter of the search itself.

  \<open>linear_search\<close>, used on tables of at most four points: from \<open>i\<close>, skip the
  entries that are at most the key; the caller takes the index before the stop.
\<close>

function linear_search :: "npfloat \<Rightarrow> npfloat list \<Rightarrow> nat \<Rightarrow> nat" where
  "linear_search key arr i =
     (if i < length arr \<and> np_le (arr ! i) key then linear_search key arr (Suc i) else i)"
  by pat_completeness auto
termination
  by (relation "measure (\<lambda>(key, arr, i). length arr - i)") auto

text \<open>
  The bisection at the end of \<open>binary_search_with_guess\<close>:
  \<open>while (imin < imax)\<close> with \<open>imid = imin + ((imax - imin) >> 1)\<close>; the caller
  takes \<open>imin - 1\<close>.
\<close>

function bisect :: "npfloat \<Rightarrow> npfloat list \<Rightarrow> nat \<Rightarrow> nat \<Rightarrow> nat" where
  "bisect key arr imin imax =
     (if imin < imax
      then (if np_le (arr ! (imin + (imax - imin) div 2)) key
            then bisect key arr (imin + (imax - imin) div 2 + 1) imax
            else bisect key arr imin (imin + (imax - imin) div 2))
      else imin)"
  by pat_completeness auto
termination
  by (relation "measure (\<lambda>(key, arr, imin, imax). imax - imin)") auto

text \<open>
  \<open>binary_search_with_guess(key, arr, len, guess)\<close> on a table of at least two
  points. Keys beyond the last entry give \<open>len\<close>, keys before the first give
  \<open>-1\<close>; tables of at most four points are scanned; otherwise the guess is
  clamped to \<open>1 .. len - 3\<close>, the entries around it are tried, and the rest is
  bisected, within eight entries of the guess where the key allows it.
\<close>

definition binary_search_with_guess :: "npfloat \<Rightarrow> npfloat list \<Rightarrow> int \<Rightarrow> int" where
  "binary_search_with_guess key arr guess0 =
     (let len = length arr in
      if np_lt (arr ! (len - 1)) key then int len
      else if np_lt key (arr ! 0) then - 1
      else if len \<le> 4 then int (linear_search key arr 1) - 1
      else
        (let guess = nat (max 1 (min guess0 (int len - 3))) in
         if np_lt key (arr ! guess) then
           (if np_lt key (arr ! (guess - 1)) then
              int (bisect key arr
                     (if 8 < guess \<and> np_le (arr ! (guess - 8)) key then guess - 8 else 0)
                     (guess - 1)) - 1
            else int guess - 1)
         else if np_lt key (arr ! (guess + 1)) then int guess
         else if np_lt key (arr ! (guess + 2)) then int guess + 1
         else
           int (bisect key arr (guess + 2)
                  (if guess + 9 < len \<and> np_lt key (arr ! (guess + 8)) then guess + 8
                   else len)) - 1))"

text \<open>
  The value on the segment from \<open>j\<close>: \<open>slope * (x - xp[j]) + fp[j]\<close>; when that
  is \<open>NaN\<close> the same from the other end of the segment, and when that is \<open>NaN\<close>
  too and the two table values are equal, that value.
\<close>

definition interp_segment :: "npfloat \<Rightarrow> npfloat list \<Rightarrow> npfloat list \<Rightarrow> nat \<Rightarrow> npfloat" where
  "interp_segment x xp fp j =
     (let slope = np_div (np_sub (fp ! (j + 1)) (fp ! j)) (np_sub (xp ! (j + 1)) (xp ! j));
          r = np_add (np_mul slope (np_sub x (xp ! j))) (fp ! j)
      in if r \<noteq> NaN then r
         else
           (let r' = np_add (np_mul slope (np_sub x (xp ! (j + 1)))) (fp ! (j + 1))
            in if r' = NaN \<and> np_eq (fp ! j) (fp ! (j + 1)) then fp ! j else r'))"

text \<open>
  \<open>np.interp\<close> itself, with the default end values \<open>fp[0]\<close> and \<open>fp[-1]\<close> and the
  search started from the guess 0, as it is for a scalar query. An empty table
  and tables of different lengths raise ValueError; a table of one point gives
  its value; a \<open>NaN\<close> query gives \<open>NaN\<close>.
\<close>

definition np_interp :: "npfloat \<Rightarrow> npfloat list \<Rightarrow> npfloat list \<Rightarrow> py_error + npfloat" where
  "np_interp x xp fp =
     (if xp = [] then Inl ValueError
      else if length fp \<noteq> length xp then Inl ValueError
      else Inr
        (if length xp = 1 then fp ! 0
         else if x = NaN then NaN
         else
           (let j = binary_search_with_guess x xp 0 in
            if j = - 1 then fp ! 0
            else if j = int (length xp) then fp ! (length xp - 1)
            else if j = int (length xp) - 1 then fp ! (nat j)
            else if np_eq (xp ! (nat j)) x then fp ! (nat j)
            else interp_segment x xp fp (nat j))))"

section \<open>The specimen object\<close>

text \<open>
  The fields of a \<open>BiasTest\<close> object, in the order \<open>__init__\<close> assigns them. The
  measurement series are float64 arrays. The geometry fields are floats: their
  type is the parameter \<open>'g\<close>, which is \<open>npfloat\<close> for an object built from
  arbitrary floats (\<open>py_bias_test\<close>) and \<open>real\<close> for an object whose geometry is
  finite (\<open>bias_test\<close>), the kind of object the computations below are stated
  for. The field \<open>length\<close> of the source is \<open>length_mm\<close> here (\<open>length\<close> is the
  list function).
\<close>

record 'g bias_test_obj =
  displacement :: "npfloat list"
  force :: "npfloat list"
  number_mesures :: nat
  name :: string
  width :: 'g
  length_mm :: 'g
  thickness :: 'g
  ratio :: 'g
  semi_sheared_area :: 'g
  sheared_area :: 'g
  diagonal_pf :: 'g
  length_side_pf :: 'g
  inter_fiber_angle :: "npfloat list"
  shear_angle :: "npfloat list"
  shear_torque :: "npfloat list"
  shear_torque_computed :: bool
  shear_force :: "npfloat list"
  shear_force_computed :: bool

type_synonym bias_test = "real bias_test_obj"

type_synonym py_bias_test = "npfloat bias_test_obj"

text \<open>
  \<open>_calculate_inter_fibre_angle\<close> reads the fields \<open>displacement\<close>, \<open>diagonal_pf\<close>
  and \<open>length_side_pf\<close> of the object under construction; they are its arguments
  here. It has no check and no \<open>raise\<close>: every operation is elementwise numpy
  arithmetic.
\<close>

definition calculate_inter_fibre_angle :: "npfloat list \<Rightarrow> real \<Rightarrow> real \<Rightarrow> npfloat list" where
  "calculate_inter_fibre_angle disp diag side =
     map (\<lambda>d. np_mul (Fin 2) (np_arccos (np_div (np_add d (Fin diag)) (Fin (2 * side))))) disp"

definition calculate_shear_angle :: "npfloat list \<Rightarrow> npfloat list" where
  "calculate_shear_angle ifa = map (\<lambda>a. np_sub (Fin (pi / 2)) a) ifa"

text \<open>
  \<open>BiasTest.__init__\<close> on arguments that are numeric arrays and finite numbers
  (the constructor on arbitrary arguments is \<open>BiasTest_init_py\<close> below, and the
  two agree on these). The checks in the order of the source: the sizes of the
  two arrays, then \<open>length / width < 2.0\<close>, whose division raises
  ZeroDivisionError on a zero width before the comparison is made. The thickness
  and the signs of width and length are not examined.
\<close>

definition BiasTest_init ::
  "npfloat list \<Rightarrow> npfloat list \<Rightarrow> real \<Rightarrow> real \<Rightarrow> real \<Rightarrow> string \<Rightarrow> py_error + bias_test" where
  "BiasTest_init displacement0 force0 width0 length0 thickness0 material_name =
     (if length displacement0 \<noteq> length force0 then Inl ValueError
      else if width0 = 0 then Inl ZeroDivisionError
      else if length0 / width0 < 2 then Inl ValueError
      else
        (let semi = width0 * width0;
             diag = length0 - width0;
             side = diag / sqrt 2;
             ifa = calculate_inter_fibre_angle displacement0 diag side
         in Inr \<lparr> displacement = displacement0,
                  force = force0,
                  number_mesures = length displacement0,
                  name = material_name,
                  width = width0,
                  length_mm = length0,
                  thickness = thickness0,
                  ratio = length0 / width0,
                  semi_sheared_area = semi,
                  sheared_area = width0 * length0 - 1.5 * semi,
                  diagonal_pf = diag,
                  length_side_pf = side,
                  inter_fiber_angle = ifa,
                  shear_angle = calculate_shear_angle ifa,
                  shear_torque = replicate (length displacement0) (Fin 0),
                  shear_torque_computed = False,
                  shear_force = replicate (length displacement0) (Fin 0),
                  shear_force_computed = False \<rparr>))"

subsection \<open>The constructor on arbitrary arguments\<close>

text \<open>
  An argument of \<open>np.asarray(..., dtype=float)\<close>: a sequence of numbers, which
  converts to the one-dimensional array of its values, or a value the
  conversion raises on. \<open>__init__\<close> turns every exception of the conversion
  into ValueError.
\<close>

datatype array_like = Numbers "npfloat list" | Unconvertible

definition np_asarray :: "array_like \<Rightarrow> py_error + npfloat list" where
  "np_asarray a = (case a of Numbers xs \<Rightarrow> Inr xs | Unconvertible \<Rightarrow> Inl ValueError)"

text \<open>
  Division of Python floats: ZeroDivisionError on a zero divisor, whatever the
  dividend; the IEEE quotient otherwise.
\<close>

definition py_div :: "npfloat \<Rightarrow> npfloat \<Rightarrow> py_error + npfloat" where
  "py_div a b = (if b = Fin 0 then Inl ZeroDivisionError else Inr (np_div a b))"

text \<open>\<open>_calculate_inter_fibre_angle\<close> on geometry fields that are arbitrary floats.\<close>

definition calculate_inter_fibre_angle_py ::
  "npfloat list \<Rightarrow> npfloat \<Rightarrow> npfloat \<Rightarrow> npfloat list" where
  "calculate_inter_fibre_angle_py disp diag side =
     map (\<lambda>d. np_mul (Fin 2) (np_arccos (np_div (np_add d diag) (np_mul (Fin 2) side)))) disp"

text \<open>
  \<open>BiasTest.__init__\<close>, lines 40 to 86. The conversion of the two series, the
  comparison of their sizes, \<open>length / width < 2.0\<close> (a comparison with \<open>NaN\<close> is
  false), then the fields. Nothing examines the thickness, the signs, or whether
  a parameter is finite.
\<close>

definition BiasTest_init_py ::
  "array_like \<Rightarrow> array_like \<Rightarrow> npfloat \<Rightarrow> npfloat \<Rightarrow> npfloat \<Rightarrow> string
     \<Rightarrow> py_error + py_bias_test" where
  "BiasTest_init_py displacement0 force0 width0 length0 thickness0 material_name =
     bind_err (np_asarray displacement0) (\<lambda>d.
     bind_err (np_asarray force0) (\<lambda>f.
       if length d \<noteq> length f then Inl ValueError
       else
         bind_err (py_div length0 width0) (\<lambda>r.
           if np_lt r (Fin 2) then Inl ValueError
           else
             (let semi = np_mul width0 width0;
                  diag = np_sub length0 width0;
                  side = np_div diag (Fin (sqrt 2));
                  ifa = calculate_inter_fibre_angle_py d diag side
              in Inr \<lparr> displacement = d,
                       force = f,
                       number_mesures = length d,
                       name = material_name,
                       width = width0,
                       length_mm = length0,
                       thickness = thickness0,
                       ratio = r,
                       semi_sheared_area = semi,
                       sheared_area = np_sub (np_mul width0 length0) (np_mul (Fin 1.5) semi),
                       diagonal_pf = diag,
                       length_side_pf = side,
                       inter_fiber_angle = ifa,
                       shear_angle = calculate_shear_angle ifa,
                       shear_torque = replicate (length d) (Fin 0),
                       shear_torque_computed = False,
                       shear_force = replicate (length d) (Fin 0),
                       shear_force_computed = False \<rparr>))))"

text \<open>An object of finite geometry among the objects of arbitrary geometry.\<close>

definition of_finite :: "bias_test \<Rightarrow> py_bias_test" where
  "of_finite s =
     \<lparr> displacement = displacement s,
       force = force s,
       number_mesures = number_mesures s,
       name = name s,
       width = Fin (width s),
       length_mm = Fin (length_mm s),
       thickness = Fin (thickness s),
       ratio = Fin (ratio s),
       semi_sheared_area = Fin (semi_sheared_area s),
       sheared_area = Fin (sheared_area s),
       diagonal_pf = Fin (diagonal_pf s),
       length_side_pf = Fin (length_side_pf s),
       inter_fiber_angle = inter_fiber_angle s,
       shear_angle = shear_angle s,
       shear_torque = shear_torque s,
       shear_torque_computed = shear_torque_computed s,
       shear_force = shear_force s,
       shear_force_computed = shear_force_computed s \<rparr>"

section \<open>Shear torque\<close>

text \<open>
  \<open>calculate_shear_torque\<close>, lines 97 and 98: the array of zeros and the value
  stored at index 1. The right-hand side is evaluated first, so a series with
  fewer than two samples fails at the read \<open>force[1]\<close>.
\<close>

definition torque_bootstrap :: "bias_test \<Rightarrow> py_error + npfloat list" where
  "torque_bootstrap s =
     (let c = replicate (number_mesures s) (Fin 0) in
      bind_err (index_np (force s) 1) (\<lambda>f1.
      bind_err (index_np (inter_fiber_angle s) 1) (\<lambda>a1.
        if 1 < length c
        then Inr (c[1 := np_div
                     (np_mul (np_mul (Fin (4 * length_side_pf s)) f1)
                             (np_sin (np_div a1 (Fin 2))))
                     (Fin (4 * sheared_area s - semi_sheared_area s))])
        else Inl IndexError)))"

text \<open>
  The body of the loop at index \<open>i\<close>, on the current array \<open>c\<close>. The table
  passed to \<open>np.interp\<close> is the whole of \<open>shear_angle\<close> and the whole of \<open>c\<close>.
  \<open>1.0/self.semi_sheared_area\<close> is a division of Python numbers and raises on zero.
\<close>

definition torque_step :: "bias_test \<Rightarrow> nat \<Rightarrow> npfloat list \<Rightarrow> py_error + npfloat list" where
  "torque_step s i c =
     bind_err (index_np (shear_angle s) i) (\<lambda>sa_i.
     bind_err (np_interp (np_div sa_i (Fin 2)) (shear_angle s) c) (\<lambda>semi_torque.
       if semi_sheared_area s = 0 then Inl ZeroDivisionError
       else
         bind_err (index_np (force s) i) (\<lambda>f_i.
         bind_err (index_np (inter_fiber_angle s) i) (\<lambda>a_i.
           if i < length c
           then Inr (c[i := np_mul (Fin (1 / semi_sheared_area s))
                        (np_sub
                           (np_mul (np_mul (Fin (length_side_pf s)) f_i)
                                   (np_sin (np_div a_i (Fin 2))))
                           (np_mul (Fin (0.5 * semi_sheared_area s)) semi_torque))])
           else Inl IndexError))))"

text \<open>
  \<open>for i in range(2, self.number_mesures)\<close>: the indices in order,
  stopping at the first exception.
\<close>

fun torque_loop :: "bias_test \<Rightarrow> nat list \<Rightarrow> npfloat list \<Rightarrow> py_error + npfloat list" where
  "torque_loop s [] c = Inr c"
| "torque_loop s (i # rest) c =
     (case torque_step s i c of Inl e \<Rightarrow> Inl e | Inr c' \<Rightarrow> torque_loop s rest c')"

definition calculate_shear_torque :: "bias_test \<Rightarrow> py_error + bias_test" where
  "calculate_shear_torque s =
     bind_err (torque_bootstrap s) (\<lambda>c1.
     bind_err (torque_loop s [2..<number_mesures s] c1) (\<lambda>c.
       Inr (s\<lparr>shear_torque := c, shear_torque_computed := True\<rparr>)))"

text \<open>
  \<open>calculate_shear_torque_2\<close>: one vectorised expression. \<open>H/W\<close> divides Python
  floats (ZeroDivisionError on a zero width); the product of the two arrays
  broadcasts; the final division by \<open>2*H-3*W\<close> is numpy's.
\<close>

definition calculate_shear_torque_2 :: "bias_test \<Rightarrow> py_error + bias_test" where
  "calculate_shear_torque_2 s =
     (if width s = 0 then Inl ZeroDivisionError
      else
        bind_err
          (np_broadcast2 np_mul
             (map (\<lambda>f. np_mul (Fin (length_mm s / width s - 1)) f) (force s))
             (map (\<lambda>a. np_sub (np_cos (np_div a (Fin 2))) (np_sin (np_div a (Fin 2))))
                  (shear_angle s)))
          (\<lambda>num. Inr (s\<lparr>shear_torque :=
                           map (\<lambda>x. np_div x (Fin (2 * length_mm s - 3 * width s))) num,
                         shear_torque_computed := True\<rparr>)))"

section \<open>Shear force\<close>

text \<open>
  \<open>calculate_shear_force\<close>: when the torque has not been computed it calls
  \<open>calculate_shear_torque\<close>; then one elementwise numpy division.
\<close>

definition calculate_shear_force :: "bias_test \<Rightarrow> py_error + bias_test" where
  "calculate_shear_force s =
     bind_err (if \<not> shear_torque_computed s then calculate_shear_torque s else Inr s) (\<lambda>s1.
     bind_err (np_broadcast2 np_div (shear_torque s1) (map np_cos (shear_angle s1))) (\<lambda>sf.
       Inr (s1\<lparr>shear_force := sf, shear_force_computed := True\<rparr>)))"

section \<open>Specimens\<close>

text \<open>
  The objects a program can hold: what the constructor returns, and what the
  three computing methods make of such an object. (The plotting methods change
  an object only through \<open>calculate_shear_torque\<close> and \<open>calculate_shear_force\<close>.)
\<close>

inductive specimen :: "bias_test \<Rightarrow> bool" where
  constructed: "BiasTest_init d f w l t nm = Inr s \<Longrightarrow> specimen s"
| after_torque: "specimen s \<Longrightarrow> calculate_shear_torque s = Inr s' \<Longrightarrow> specimen s'"
| after_torque_2: "specimen s \<Longrightarrow> calculate_shear_torque_2 s = Inr s' \<Longrightarrow> specimen s'"
| after_force: "specimen s \<Longrightarrow> calculate_shear_force s = Inr s' \<Longrightarrow> specimen s'"

text \<open>What holds of every specimen: the geometry and the lengths of the series.\<close>

definition consistent :: "bias_test \<Rightarrow> bool" where
  "consistent s \<longleftrightarrow>
     length (displacement s) = number_mesures s \<and>
     length (force s) = number_mesures s \<and>
     length (inter_fiber_angle s) = number_mesures s \<and>
     length (shear_angle s) = number_mesures s \<and>
     length (shear_torque s) = number_mesures s \<and>
     length (shear_force s) = number_mesures s \<and>
     width s \<noteq> 0 \<and> 2 \<le> length_mm s / width s \<and>
     ratio s = length_mm s / width s \<and>
     semi_sheared_area s = width s * width s \<and>
     sheared_area s = width s * length_mm s - 1.5 * semi_sheared_area s \<and>
     diagonal_pf s = length_mm s - width s \<and>
     length_side_pf s = diagonal_pf s / sqrt 2 \<and>
     inter_fiber_angle s =
       calculate_inter_fibre_angle (displacement s) (diagonal_pf s) (length_side_pf s) \<and>
     shear_angle s = calculate_shear_angle (inter_fiber_angle s)"

section \<open>The recurrence as the specification words it\<close>

text \<open>
  The specification describes the value stored at index \<open>i\<close> with an
  interpolation table made of the pairs accumulated before \<open>i\<close>:
  \<open>shear_angle[0..i-1]\<close> against \<open>c[0..i-1]\<close>. This definition follows those
  words, for comparison with \<open>torque_step\<close>.
\<close>

definition spec_mode_a_value :: "bias_test \<Rightarrow> npfloat list \<Rightarrow> nat \<Rightarrow> py_error + npfloat" where
  "spec_mode_a_value s c i =
     bind_err (np_interp (np_div (shear_angle s ! i) (Fin 2)) (take i (shear_angle s)) (take i c))
       (\<lambda>semi_torque.
          Inr (np_mul (Fin (1 / semi_sheared_area s))
                 (np_sub
                    (np_mul (np_mul (Fin (length_side_pf s)) (force s ! i))
                            (np_sin (np_div (inter_fiber_angle s ! i) (Fin 2))))
                    (np_mul (Fin (0.5 * semi_sheared_area s)) semi_torque))))"

section \<open>Sample inputs\<close>

text \<open>
  The end-to-end scenario of the specification: width 150, length 450, four
  samples.
\<close>

definition scenario :: bias_test where
  "scenario =
     projr (BiasTest_init [Fin 0, Fin 1, Fin 2, Fin 3] [Fin 0, Fin 10, Fin 20, Fin 30]
                          150 450 1 ''Flax 250'')"

text \<open>
  The scenario in closed form. At displacement \<open>d\<close> the argument of \<open>arccos\<close> is
  \<open>(d + 300) / (2 * (300 / sqrt 2))\<close> and the shear angle is
  \<open>pi/2 - 2 * arccos\<close> of it; \<open>scenario_c1\<close> is the value the second statement
  of \<open>calculate_shear_torque\<close> stores at index 1, and \<open>scenario_torque\<close> the array
  the method returns.
\<close>

definition scenario_arg :: "real \<Rightarrow> real" where
  "scenario_arg d = (d + 300) / (2 * (300 / sqrt 2))"

definition scenario_theta :: "real \<Rightarrow> real" where
  "scenario_theta d = pi / 2 - 2 * arccos (scenario_arg d)"

definition scenario_c1 :: real where
  "scenario_c1 =
     4 * (300 / sqrt 2) * 10 * sin (2 * arccos (scenario_arg 1) / 2) / (4 * 33750 - 22500)"

definition scenario_torque :: "npfloat list" where
  "scenario_torque = shear_torque (projr (calculate_shear_torque scenario))"

text \<open>
  Width 1, length 2 and three displacements, about 0, 0.2247 and 0.4142, at
  which the shear angles are 0, \<open>pi/6\<close> and \<open>pi/2\<close> in exact arithmetic.
\<close>

definition half_angle_sample :: bias_test where
  "half_angle_sample =
     projr (BiasTest_init [Fin 0, Fin (sqrt 6 / 2 - 1), Fin (sqrt 2 - 1)]
                          [Fin 0, Fin 1, Fin 2] 1 2 1 ''sample'')"

text \<open>
  The same geometry as the scenario with a displacement far beyond the travel of
  the frame.
\<close>

definition overtravel_sample :: "py_error + bias_test" where
  "overtravel_sample =
     BiasTest_init [Fin 0, Fin 1000] [Fin 0, Fin 10] 150 450 1 ''Flax 250''"

text \<open>Series of one sample and of no sample.\<close>

definition single_sample :: bias_test where
  "single_sample = projr (BiasTest_init [Fin 0] [Fin 0] 150 450 1 ''Flax 250'')"

definition empty_sample :: bias_test where
  "empty_sample = projr (BiasTest_init [] [] 150 450 1 ''Flax 250'')"

section \<open>Basic facts about the operations\<close>

declare linear_search.simps [simp del]

declare bisect.simps [simp del]

lemma bind_err_Inr [simp]: "bind_err (Inr v) k = k v"
  by (simp add: bind_err_def)

lemma bind_err_Inl [simp]: "bind_err (Inl e) k = Inl e"
  by (simp add: bind_err_def)

lemma bind_err_eq_Inr: "bind_err r k = Inr y \<longleftrightarrow> (\<exists>v. r = Inr v \<and> k v = Inr y)"
  by (cases r) simp_all

lemma index_np_eq_Inr: "index_np xs i = Inr v \<longleftrightarrow> i < length xs \<and> v = xs ! i"
  by (auto simp: index_np_def)

lemma np_interp_total:
  "xp \<noteq> [] \<Longrightarrow> length fp = length xp \<Longrightarrow> \<exists>v. np_interp x xp fp = Inr v"
  by (simp add: np_interp_def)

lemma np_lt_NaN_right [simp]: "\<not> np_lt x NaN"
  by (cases x) simp_all

lemma np_interp_right:
  assumes "2 \<le> length xp" "length fp = length xp" "np_lt (last xp) x"
  shows "np_interp x xp fp = Inr (last fp)"
proof -
  from assms(1) have ne: "xp \<noteq> []" "fp \<noteq> []" using assms(2) by auto
  from assms(3) have x: "x \<noteq> NaN" by auto
  from assms(3) ne have "np_lt (xp ! (length xp - 1)) x" by (simp add: last_conv_nth)
  then have "binary_search_with_guess x xp 0 = int (length xp)"
    by (simp add: binary_search_with_guess_def Let_def)
  with assms(1,2) ne x show ?thesis
    by (simp add: np_interp_def Let_def last_conv_nth)
qed

lemma np_interp_left:
  assumes "2 \<le> length xp" "length fp = length xp"
    and "\<not> np_lt (last xp) x" "np_lt x (hd xp)"
  shows "np_interp x xp fp = Inr (hd fp)"
proof -
  from assms(1) have ne: "xp \<noteq> []" "fp \<noteq> []" using assms(2) by auto
  from assms(4) have x: "x \<noteq> NaN" by auto
  from assms(3) ne have "\<not> np_lt (xp ! (length xp - 1)) x" by (simp add: last_conv_nth)
  moreover from assms(4) ne have "np_lt x (xp ! 0)" by (simp add: hd_conv_nth)
  ultimately have "binary_search_with_guess x xp 0 = - 1"
    by (simp add: binary_search_with_guess_def Let_def)
  with assms(1,2) ne x show ?thesis
    by (simp add: np_interp_def Let_def hd_conv_nth)
qed

lemma np_broadcast2_same:
  "length xs = length ys \<Longrightarrow> np_broadcast2 f xs ys = Inr (map2 f xs ys)"
  by (simp add: np_broadcast2_def)

lemma torque_bootstrap_eq_Inr:
  "torque_bootstrap s = Inr c \<longleftrightarrow>
     1 < length (force s) \<and> 1 < length (inter_fiber_angle s) \<and> 1 < number_mesures s \<and>
     c = (replicate (number_mesures s) (Fin 0))
           [1 := np_div
                   (np_mul (np_mul (Fin (4 * length_side_pf s)) (force s ! 1))
                           (np_sin (np_div (inter_fiber_angle s ! 1) (Fin 2))))
                   (Fin (4 * sheared_area s - semi_sheared_area s))]"
  by (auto simp: torque_bootstrap_def Let_def bind_err_eq_Inr index_np_eq_Inr)

lemma torque_step_eq_Inr:
  "torque_step s i c = Inr c' \<longleftrightarrow>
     i < length (shear_angle s) \<and> semi_sheared_area s \<noteq> 0 \<and>
     i < length (force s) \<and> i < length (inter_fiber_angle s) \<and> i < length c \<and>
     (\<exists>st. np_interp (np_div (shear_angle s ! i) (Fin 2)) (shear_angle s) c = Inr st \<and>
        c' = c[i := np_mul (Fin (1 / semi_sheared_area s))
                 (np_sub
                    (np_mul (np_mul (Fin (length_side_pf s)) (force s ! i))
                            (np_sin (np_div (inter_fiber_angle s ! i) (Fin 2))))
                    (np_mul (Fin (0.5 * semi_sheared_area s)) st))])"
  by (auto simp: torque_step_def bind_err_eq_Inr index_np_eq_Inr)

lemma torque_step_length: "torque_step s i c = Inr c' \<Longrightarrow> length c' = length c"
  by (auto simp: torque_step_eq_Inr)

lemma torque_step_other: "torque_step s i c = Inr c' \<Longrightarrow> j \<noteq> i \<Longrightarrow> c' ! j = c ! j"
  by (auto simp: torque_step_eq_Inr)

lemma torque_loop_length: "torque_loop s js c = Inr c' \<Longrightarrow> length c' = length c"
  by (induction js arbitrary: c) (auto split: sum.splits dest: torque_step_length)

lemma torque_loop_other:
  "torque_loop s js c = Inr c' \<Longrightarrow> j \<notin> set js \<Longrightarrow> c' ! j = c ! j"
  by (induction js arbitrary: c) (auto split: sum.splits dest: torque_step_other)

lemma torque_loop_append:
  "torque_loop s (xs @ ys) c = Inr c' \<longleftrightarrow>
     (\<exists>c1. torque_loop s xs c = Inr c1 \<and> torque_loop s ys c1 = Inr c')"
  by (induction xs arbitrary: c) (auto split: sum.splits)

lemma torque_loop_total:
  "\<forall>j \<in> set js. j < length (shear_angle s) \<Longrightarrow> length (shear_angle s) = length c \<Longrightarrow>
   length (force s) = length c \<Longrightarrow> length (inter_fiber_angle s) = length c \<Longrightarrow>
   semi_sheared_area s \<noteq> 0 \<Longrightarrow> \<exists>c'. torque_loop s js c = Inr c'"
proof (induction js arbitrary: c)
  case Nil
  then show ?case by simp
next
  case (Cons j js)
  from Cons.prems have j: "j < length c" by simp
  with Cons.prems have "shear_angle s \<noteq> []" by auto
  then obtain st where
    "np_interp (np_div (shear_angle s ! j) (Fin 2)) (shear_angle s) c = Inr st"
    using np_interp_total [of "shear_angle s" c] Cons.prems(2) by metis
  with Cons.prems j obtain c1 where c1: "torque_step s j c = Inr c1"
    by (auto simp: torque_step_eq_Inr)
  then have "length c1 = length c" by (rule torque_step_length)
  with Cons.IH [of c1] Cons.prems obtain c' where "torque_loop s js c1 = Inr c'"
    by auto
  with c1 show ?case by simp
qed

lemma calculate_shear_torque_eq_Inr:
  "calculate_shear_torque s = Inr s' \<longleftrightarrow>
     (\<exists>c1 c. torque_bootstrap s = Inr c1 \<and> torque_loop s [2..<number_mesures s] c1 = Inr c \<and>
        s' = s\<lparr>shear_torque := c, shear_torque_computed := True\<rparr>)"
  by (auto simp: calculate_shear_torque_def bind_err_eq_Inr)

lemma calculate_shear_torque_frame:
  assumes "calculate_shear_torque s = Inr s'"
  shows "s' = s\<lparr>shear_torque := shear_torque s', shear_torque_computed := True\<rparr>"
    and "length (shear_torque s') = number_mesures s"
proof -
  from assms obtain c1 c where c1: "torque_bootstrap s = Inr c1"
    and c: "torque_loop s [2..<number_mesures s] c1 = Inr c"
    and s': "s' = s\<lparr>shear_torque := c, shear_torque_computed := True\<rparr>"
    by (auto simp: calculate_shear_torque_eq_Inr)
  show "s' = s\<lparr>shear_torque := shear_torque s', shear_torque_computed := True\<rparr>"
    by (simp add: s')
  from c1 have "length c1 = number_mesures s"
    by (auto simp: torque_bootstrap_eq_Inr)
  with torque_loop_length [OF c] show "length (shear_torque s') = number_mesures s"
    by (simp add: s')
qed

lemma calculate_shear_torque_2_eq_Inr:
  "length (force s) = length (shear_angle s) \<Longrightarrow>
   calculate_shear_torque_2 s = Inr s' \<longleftrightarrow>
     width s \<noteq> 0 \<and>
     s' = s\<lparr>shear_torque :=
              map (\<lambda>x. np_div x (Fin (2 * length_mm s - 3 * width s)))
                (map2 np_mul
                   (map (\<lambda>f. np_mul (Fin (length_mm s / width s - 1)) f) (force s))
                   (map (\<lambda>a. np_sub (np_cos (np_div a (Fin 2))) (np_sin (np_div a (Fin 2))))
                      (shear_angle s))),
            shear_torque_computed := True\<rparr>"
  by (auto simp: calculate_shear_torque_2_def np_broadcast2_same)

lemma calculate_shear_force_computed:
  "shear_torque_computed s \<Longrightarrow> length (shear_torque s) = length (shear_angle s) \<Longrightarrow>
   calculate_shear_force s =
     Inr (s\<lparr>shear_force := map2 np_div (shear_torque s) (map np_cos (shear_angle s)),
            shear_force_computed := True\<rparr>)"
  by (simp add: calculate_shear_force_def np_broadcast2_same)

lemma calculate_shear_force_uncomputed:
  "\<not> shear_torque_computed s \<Longrightarrow>
   calculate_shear_force s = bind_err (calculate_shear_torque s) calculate_shear_force"
proof (cases "calculate_shear_torque s")
  case (Inl e)
  assume "\<not> shear_torque_computed s"
  with Inl show ?thesis by (simp add: calculate_shear_force_def)
next
  case (Inr s1)
  assume n: "\<not> shear_torque_computed s"
  from Inr have "shear_torque_computed s1"
    by (auto simp: calculate_shear_torque_eq_Inr)
  with Inr n show ?thesis by (simp add: calculate_shear_force_def)
qed

lemma length_calculate_inter_fibre_angle [simp]:
  "length (calculate_inter_fibre_angle disp diag side) = length disp"
  by (simp add: calculate_inter_fibre_angle_def)

lemma length_calculate_shear_angle [simp]: "length (calculate_shear_angle ifa) = length ifa"
  by (simp add: calculate_shear_angle_def)

lemma BiasTest_init_consistent: "BiasTest_init d f w l t nm = Inr s \<Longrightarrow> consistent s"
  by (auto simp: BiasTest_init_def consistent_def Let_def split: if_splits)

lemma consistent_torque_update:
  "consistent s \<Longrightarrow> length c = number_mesures s \<Longrightarrow>
   consistent (s\<lparr>shear_torque := c, shear_torque_computed := b\<rparr>)"
  by (simp add: consistent_def)

lemma consistent_force_update:
  "consistent s \<Longrightarrow> length c = number_mesures s \<Longrightarrow>
   consistent (s\<lparr>shear_force := c, shear_force_computed := b\<rparr>)"
  by (simp add: consistent_def)

lemma calculate_shear_torque_consistent:
  assumes "consistent s" "calculate_shear_torque s = Inr s'"
  shows "consistent s'"
proof -
  note f = calculate_shear_torque_frame [OF assms(2)]
  have "consistent (s\<lparr>shear_torque := shear_torque s', shear_torque_computed := True\<rparr>)"
    using assms(1) f(2) by (rule consistent_torque_update)
  with f(1) show ?thesis by simp
qed

lemma calculate_shear_torque_2_consistent:
  assumes "consistent s" "calculate_shear_torque_2 s = Inr s'"
  shows "consistent s'"
proof -
  from assms(1) have l: "length (force s) = number_mesures s"
    "length (shear_angle s) = number_mesures s"
    by (simp_all add: consistent_def)
  then have "length (force s) = length (shear_angle s)" by simp
  from calculate_shear_torque_2_eq_Inr [OF this, of s'] assms(2)
  obtain c where s': "s' = s\<lparr>shear_torque := c, shear_torque_computed := True\<rparr>"
    and c: "c = map (\<lambda>x. np_div x (Fin (2 * length_mm s - 3 * width s)))
                (map2 np_mul
                   (map (\<lambda>f. np_mul (Fin (length_mm s / width s - 1)) f) (force s))
                   (map (\<lambda>a. np_sub (np_cos (np_div a (Fin 2))) (np_sin (np_div a (Fin 2))))
                      (shear_angle s)))"
    by blast
  from c l have "length c = number_mesures s" by simp
  with assms(1) show ?thesis unfolding s' by (rule consistent_torque_update)
qed

lemma calculate_shear_force_consistent:
  assumes "consistent s" "calculate_shear_force s = Inr s'"
  shows "consistent s'"
proof -
  have step: "consistent s'" if k: "consistent s1" and c: "shear_torque_computed s1"
    and g: "calculate_shear_force s1 = Inr s'" for s1
  proof -
    from k have l: "length (shear_torque s1) = number_mesures s1"
      "length (shear_angle s1) = number_mesures s1"
      by (simp_all add: consistent_def)
    then have "length (shear_torque s1) = length (shear_angle s1)" by simp
    from calculate_shear_force_computed [OF c this] g
    have "s' = s1\<lparr>shear_force := map2 np_div (shear_torque s1) (map np_cos (shear_angle s1)),
                   shear_force_computed := True\<rparr>"
      by simp
    moreover have "length (map2 np_div (shear_torque s1) (map np_cos (shear_angle s1)))
      = number_mesures s1"
      using l by simp
    ultimately show ?thesis using k by (simp add: consistent_force_update)
  qed
  show ?thesis
  proof (cases "shear_torque_computed s")
    case True
    with assms show ?thesis by (intro step [of s])
  next
    case False
    with assms(2) obtain s1 where t: "calculate_shear_torque s = Inr s1"
      and g: "calculate_shear_force s1 = Inr s'"
      by (auto simp: calculate_shear_force_uncomputed bind_err_eq_Inr)
    from t have c1: "shear_torque_computed s1"
      by (auto simp: calculate_shear_torque_eq_Inr)
    have k: "consistent s1" by (rule calculate_shear_torque_consistent [OF assms(1) t])
    from k c1 g show ?thesis by (rule step)
  qed
qed

lemma specimen_consistent: "specimen s \<Longrightarrow> consistent s"
  by (induction rule: specimen.induct)
    (blast intro: BiasTest_init_consistent calculate_shear_torque_consistent
       calculate_shear_torque_2_consistent calculate_shear_force_consistent)+

lemma consistent_length_side_pf: "consistent s \<Longrightarrow> length_side_pf s \<noteq> 0"
  by (auto simp: consistent_def field_simps)

lemma geometry_ratio:
  fixes w l :: real
  assumes "w \<noteq> 0" "2 \<le> l / w"
  obtains r where "l = r * w" "2 \<le> r"
  using assms by (intro that [of "l / w"]) simp_all

lemma consistent_bootstrap_divisor:
  assumes "consistent s"
  shows "4 * sheared_area s - semi_sheared_area s \<noteq> 0"
proof -
  from assms have w: "width s \<noteq> 0" and r: "2 \<le> length_mm s / width s"
    by (simp_all add: consistent_def)
  then obtain r where l: "length_mm s = r * width s" and r2: "2 \<le> r"
    by (rule geometry_ratio)
  from assms have "4 * sheared_area s - semi_sheared_area s
      = 4 * (width s * length_mm s - 1.5 * (width s * width s)) - width s * width s"
    by (simp add: consistent_def)
  also have "\<dots> = (width s * width s) * (4 * r - 7)"
    by (simp add: l algebra_simps)
  finally show ?thesis using w r2 by simp
qed

lemma consistent_mode_b_divisor:
  assumes "consistent s"
  shows "2 * length_mm s - 3 * width s \<noteq> 0"
proof -
  from assms have w: "width s \<noteq> 0" and r: "2 \<le> length_mm s / width s"
    by (simp_all add: consistent_def)
  then obtain r where l: "length_mm s = r * width s" and r2: "2 \<le> r"
    by (rule geometry_ratio)
  have "2 * length_mm s - 3 * width s = width s * (2 * r - 3)"
    by (simp add: l algebra_simps)
  then show ?thesis using w r2 by simp
qed

lemma calculate_shear_torque_total:
  assumes "consistent s" "2 \<le> number_mesures s"
  shows "\<exists>s'. calculate_shear_torque s = Inr s'"
proof -
  from assms obtain c1 where c1: "torque_bootstrap s = Inr c1"
    by (auto simp: torque_bootstrap_eq_Inr consistent_def)
  then have l: "length c1 = number_mesures s" by (auto simp: torque_bootstrap_eq_Inr)
  have "\<exists>c. torque_loop s [2..<number_mesures s] c1 = Inr c"
    using assms(1) l by (intro torque_loop_total) (auto simp: consistent_def)
  with c1 show ?thesis by (auto simp: calculate_shear_torque_eq_Inr)
qed

text \<open>\<open>np.interp\<close> on tables of two and of four points.\<close>

lemma linear_search_step:
  "i < length arr \<Longrightarrow> np_le (arr ! i) key \<Longrightarrow>
   linear_search key arr i = linear_search key arr (Suc i)"
  by (subst linear_search.simps) simp

lemma linear_search_stop:
  "\<not> (i < length arr \<and> np_le (arr ! i) key) \<Longrightarrow> linear_search key arr i = i"
  by (subst linear_search.simps) auto

lemma interp_four_second_segment:
  assumes "x \<le> t3" "t0 \<le> x" "t1 < x" "x < t2"
  shows "np_interp (Fin x) [Fin t0, Fin t1, Fin t2, Fin t3] [Fin f0, Fin f1, Fin f2, Fin f3]
           = Inr (Fin ((f2 - f1) / (t2 - t1) * (x - t1) + f1))"
proof -
  let ?arr = "[Fin t0, Fin t1, Fin t2, Fin t3]"
  have "linear_search (Fin x) ?arr (Suc 0) = linear_search (Fin x) ?arr (Suc (Suc 0))"
    using assms by (intro linear_search_step) simp_all
  also have "\<dots> = Suc (Suc 0)"
    using assms by (intro linear_search_stop) simp
  finally have ls: "linear_search (Fin x) ?arr (Suc 0) = 2" by simp
  have j: "binary_search_with_guess (Fin x) ?arr 0 = 1"
    using assms by (simp add: binary_search_with_guess_def ls)
  have "t2 - t1 \<noteq> 0" using assms by simp
  then have seg: "interp_segment (Fin x) ?arr [Fin f0, Fin f1, Fin f2, Fin f3] (Suc 0)
      = Fin ((f2 - f1) / (t2 - t1) * (x - t1) + f1)"
    by (simp add: interp_segment_def np_sub_def Let_def)
  show ?thesis
    using assms by (simp add: np_interp_def j seg np_eq_def)
qed

lemma interp_two_right:
  assumes "t1 < x"
  shows "np_interp (Fin x) [Fin t0, Fin t1] [Fin f0, Fin f1] = Inr (Fin f1)"
  using np_interp_right [of "[Fin t0, Fin t1]" "[Fin f0, Fin f1]" "Fin x"] assms by simp

section \<open>Comparisons and the sample geometry\<close>

lemma arccos_sqrt2_half: "arccos (sqrt 2 / 2) = pi / 4"
proof -
  have "arccos (cos (pi / 4)) = pi / 4" by (rule arccos_cos) simp_all
  then show ?thesis by (simp add: cos_45)
qed

lemma arccos_sqrt3_half: "arccos (sqrt 3 / 2) = pi / 6"
proof -
  have "arccos (cos (pi / 6)) = pi / 6" by (rule arccos_cos) simp_all
  then show ?thesis by (simp add: cos_30)
qed

lemma half_angle_args:
  "(0 + 1) / (2 * (1 / sqrt 2)) = sqrt 2 / 2"
  "(sqrt 6 / 2 - 1 + 1) / (2 * (1 / sqrt 2)) = sqrt 3 / 2"
  "(sqrt 2 - 1 + 1) / (2 * (1 / sqrt 2)) = 1"
proof -
  show "(0 + 1) / (2 * (1 / sqrt 2)) = sqrt 2 / 2" by simp
  have "sqrt 6 = sqrt 2 * sqrt 3"
    using real_sqrt_mult [of 2 3] by simp
  then show "(sqrt 6 / 2 - 1 + 1) / (2 * (1 / sqrt 2)) = sqrt 3 / 2" by simp
  show "(sqrt 2 - 1 + 1) / (2 * (1 / sqrt 2)) = 1" by simp
qed

lemma sqrt_bounds: "sqrt 2 / 2 \<le> 1" "sqrt 3 / 2 \<le> 1" "- 1 \<le> sqrt 2 / 2" "- 1 \<le> sqrt 3 / 2"
proof -
  have "sqrt 2 \<le> 2" "sqrt 3 \<le> 2" by (rule real_le_lsqrt; simp)+
  then show "sqrt 2 / 2 \<le> 1" "sqrt 3 / 2 \<le> 1" by simp_all
  have "0 \<le> sqrt 2" "0 \<le> sqrt 3" by simp_all
  then show "- 1 \<le> sqrt 2 / 2" "- 1 \<le> sqrt 3 / 2" by linarith+
qed

lemma inter_fibre_entry:
  assumes "side \<noteq> 0" "(x + diag) / (2 * side) = a" "- 1 \<le> a" "a \<le> 1"
  shows "np_mul (Fin 2) (np_arccos (np_div (np_add (Fin x) (Fin diag)) (Fin (2 * side))))
           = Fin (2 * arccos a)"
  using assms by simp

lemma half_angle_inter_fibre:
  "calculate_inter_fibre_angle [Fin 0, Fin (sqrt 6 / 2 - 1), Fin (sqrt 2 - 1)] 1 (1 / sqrt 2)
     = [Fin (pi / 2), Fin (pi / 3), Fin 0]"
proof -
  have s: "1 / sqrt 2 \<noteq> 0" by simp
  have "np_mul (Fin 2) (np_arccos (np_div (np_add (Fin 0) (Fin 1)) (Fin (2 * (1 / sqrt 2)))))
          = Fin (2 * arccos (sqrt 2 / 2))"
    by (rule inter_fibre_entry [OF s half_angle_args(1) sqrt_bounds(3) sqrt_bounds(1)])
  moreover
  have "np_mul (Fin 2)
          (np_arccos (np_div (np_add (Fin (sqrt 6 / 2 - 1)) (Fin 1)) (Fin (2 * (1 / sqrt 2)))))
          = Fin (2 * arccos (sqrt 3 / 2))"
    by (rule inter_fibre_entry [OF s half_angle_args(2) sqrt_bounds(4) sqrt_bounds(2)])
  moreover
  have "np_mul (Fin 2)
          (np_arccos (np_div (np_add (Fin (sqrt 2 - 1)) (Fin 1)) (Fin (2 * (1 / sqrt 2)))))
          = Fin (2 * arccos 1)"
    by (rule inter_fibre_entry [OF s half_angle_args(3)]) simp_all
  ultimately show ?thesis
    by (simp only: calculate_inter_fibre_angle_def list.map arccos_sqrt2_half arccos_sqrt3_half
        arccos_1) simp
qed

lemma half_angle_shear:
  "calculate_shear_angle [Fin (pi / 2), Fin (pi / 3), Fin 0] = [Fin 0, Fin (pi / 6), Fin (pi / 2)]"
  by (simp add: calculate_shear_angle_def np_sub_def)

lemma half_angle_sample_eq:
  "half_angle_sample =
     \<lparr> displacement = [Fin 0, Fin (sqrt 6 / 2 - 1), Fin (sqrt 2 - 1)],
       force = [Fin 0, Fin 1, Fin 2],
       number_mesures = 3,
       name = ''sample'',
       width = 1, length_mm = 2, thickness = 1, ratio = 2,
       semi_sheared_area = 1, sheared_area = 1 / 2,
       diagonal_pf = 1, length_side_pf = 1 / sqrt 2,
       inter_fiber_angle = [Fin (pi / 2), Fin (pi / 3), Fin 0],
       shear_angle = [Fin 0, Fin (pi / 6), Fin (pi / 2)],
       shear_torque = [Fin 0, Fin 0, Fin 0],
       shear_torque_computed = False,
       shear_force = [Fin 0, Fin 0, Fin 0],
       shear_force_computed = False \<rparr>"
  by (simp add: half_angle_sample_def BiasTest_init_def Let_def half_angle_inter_fibre
      half_angle_shear numeral_3_eq_3)

lemma BiasTest_init_Inr:
  assumes "length d = length f" "w \<noteq> 0" "2 \<le> l / w"
  shows "BiasTest_init d f w l t nm =
     Inr \<lparr> displacement = d, force = f, number_mesures = length d, name = nm,
           width = w, length_mm = l, thickness = t, ratio = l / w,
           semi_sheared_area = w * w, sheared_area = w * l - 1.5 * (w * w),
           diagonal_pf = l - w, length_side_pf = (l - w) / sqrt 2,
           inter_fiber_angle = calculate_inter_fibre_angle d (l - w) ((l - w) / sqrt 2),
           shear_angle =
             calculate_shear_angle (calculate_inter_fibre_angle d (l - w) ((l - w) / sqrt 2)),
           shear_torque = replicate (length d) (Fin 0), shear_torque_computed = False,
           shear_force = replicate (length d) (Fin 0), shear_force_computed = False \<rparr>"
  using assms by (simp add: BiasTest_init_def Let_def)

lemma BiasTest_init_projr:
  assumes "length d = length f" "w \<noteq> 0" "2 \<le> l / w"
  shows "BiasTest_init d f w l t nm = Inr (projr (BiasTest_init d f w l t nm))"
  by (simp add: BiasTest_init_Inr [OF assms])

lemma scenario_specimen: "specimen scenario"
  unfolding scenario_def by (rule specimen.constructed, rule BiasTest_init_projr) simp_all

lemma half_angle_specimen: "specimen half_angle_sample"
  unfolding half_angle_sample_def by (rule specimen.constructed, rule BiasTest_init_projr) simp_all

lemma empty_specimen: "specimen empty_sample"
  unfolding empty_sample_def by (rule specimen.constructed, rule BiasTest_init_projr) simp_all

lemma overtravel_Inr: "overtravel_sample = Inr (projr overtravel_sample)"
  unfolding overtravel_sample_def by (rule BiasTest_init_projr) simp_all

lemma overtravel_specimen: "specimen (projr overtravel_sample)"
  using overtravel_Inr unfolding overtravel_sample_def by (rule specimen.constructed)

lemma scenario_fields:
  "number_mesures scenario = 4"
  "displacement scenario = [Fin 0, Fin 1, Fin 2, Fin 3]"
  "force scenario = [Fin 0, Fin 10, Fin 20, Fin 30]"
  "diagonal_pf scenario = 300"
  "length_side_pf scenario = 300 / sqrt 2"
  "sheared_area scenario = 33750"
  "semi_sheared_area scenario = 22500"
  by (simp_all add: scenario_def BiasTest_init_Inr)

lemma sqrt2_le: "sqrt 2 \<le> 3 / 2"
  by (rule real_le_lsqrt) (simp_all add: power2_eq_square)

lemma scenario_domain:
  "- 1 \<le> (1 + 300) / (2 * (300 / sqrt 2))" "(1 + 300) / (2 * (300 / sqrt 2)) \<le> 1"
proof -
  have e: "(1 + 300) / (2 * (300 / sqrt 2)) = 301 * sqrt 2 / 600" by simp
  have "0 \<le> 301 * sqrt 2 / 600" by simp
  then show "- 1 \<le> (1 + 300) / (2 * (300 / sqrt 2))" unfolding e by linarith
  show "(1 + 300) / (2 * (300 / sqrt 2)) \<le> 1" unfolding e using sqrt2_le by simp
qed

lemma half_angle_fields:
  "number_mesures half_angle_sample = 3"
  "force half_angle_sample = [Fin 0, Fin 1, Fin 2]"
  "shear_angle half_angle_sample = [Fin 0, Fin (pi / 6), Fin (pi / 2)]"
  "inter_fiber_angle half_angle_sample = [Fin (pi / 2), Fin (pi / 3), Fin 0]"
  "width half_angle_sample = 1"
  "length_mm half_angle_sample = 2"
  "semi_sheared_area half_angle_sample = 1"
  "length_side_pf half_angle_sample = 1 / sqrt 2"
  "\<not> shear_torque_computed half_angle_sample"
  by (simp_all add: half_angle_sample_eq)

lemma overtravel_nan:
  "np_arccos (np_div (np_add (Fin 1000) (Fin 300)) (Fin (2 * (300 / sqrt 2)))) = NaN"
proof -
  have e: "(1000 + 300) / (2 * (300 / sqrt 2)) = 1300 * sqrt 2 / 600" by simp
  have "1 \<le> sqrt 2" by simp
  then have "1 < 1300 * sqrt 2 / 600" by linarith
  then have "\<not> (1000 + 300) / (2 * (300 / sqrt 2)) \<le> 1" unfolding e by simp
  then show ?thesis by simp
qed

lemma overtravel_fields:
  "number_mesures (projr overtravel_sample) = 2"
  "displacement (projr overtravel_sample) = [Fin 0, Fin 1000]"
  "diagonal_pf (projr overtravel_sample) = 300"
  "length_side_pf (projr overtravel_sample) = 300 / sqrt 2"
  by (simp_all add: overtravel_sample_def BiasTest_init_Inr)

subsection \<open>The angles of the scenario\<close>

lemma sqrt2_lt: "sqrt 2 < 3 / 2"
  by (rule real_less_lsqrt) (simp_all add: power2_eq_square)

lemma scenario_arg_eq: "scenario_arg d = (d + 300) * sqrt 2 / 600"
  by (simp add: scenario_arg_def)

lemma scenario_arg_0: "scenario_arg 0 = sqrt 2 / 2"
  by (simp add: scenario_arg_def)

lemma scenario_arg_mono: "d < e \<Longrightarrow> scenario_arg d < scenario_arg e"
  by (simp add: scenario_arg_eq)

lemma scenario_arg_lower: "0 \<le> d \<Longrightarrow> sqrt 2 / 2 \<le> scenario_arg d"
  by (simp add: scenario_arg_eq)

lemma scenario_arg_upper:
  assumes "d \<le> 100"
  shows "scenario_arg d < 1"
proof -
  have "(d + 300) * sqrt 2 \<le> 400 * sqrt 2" using assms by simp
  also have "\<dots> < 400 * (3 / 2)" using sqrt2_lt by simp
  finally show ?thesis by (simp add: scenario_arg_eq)
qed

lemma scenario_arg_pos:
  assumes "0 \<le> d"
  shows "0 < scenario_arg d"
proof -
  have "0 < (d + 300) * sqrt 2" using assms by (intro mult_pos_pos) simp_all
  then show ?thesis by (simp add: scenario_arg_eq)
qed

lemma scenario_arg_domain:
  assumes "0 \<le> d" "d \<le> 100"
  shows "- 1 \<le> scenario_arg d" "scenario_arg d \<le> 1"
  using scenario_arg_pos [OF assms(1)] scenario_arg_upper [OF assms(2)] by simp_all

lemma scenario_theta_0: "scenario_theta 0 = 0"
  by (simp add: scenario_theta_def scenario_arg_0 arccos_sqrt2_half)

lemma scenario_theta_mono:
  assumes "0 \<le> d" "d < e" "e \<le> 100"
  shows "scenario_theta d < scenario_theta e"
proof -
  have "arccos (scenario_arg e) < arccos (scenario_arg d)"
    using scenario_arg_pos [OF assms(1)] scenario_arg_mono [OF assms(2)]
      scenario_arg_upper [OF assms(3)]
    by (intro arccos_less_arccos) simp_all
  then show ?thesis by (simp add: scenario_theta_def)
qed

lemma scenario_theta_pos: "0 < d \<Longrightarrow> d \<le> 100 \<Longrightarrow> 0 < scenario_theta d"
  using scenario_theta_mono [of 0 d] by (simp add: scenario_theta_0)

lemma scenario_theta_less:
  assumes "0 \<le> d" "d \<le> 100"
  shows "scenario_theta d < pi / 2"
proof -
  have "- 1 < scenario_arg d"
    using scenario_arg_pos [OF assms(1)] by simp
  from arccos_lt_bounded [OF this scenario_arg_upper [OF assms(2)]]
  show ?thesis by (simp add: scenario_theta_def)
qed

lemma sin_scenario_theta:
  assumes "0 \<le> d" "d \<le> 100"
  shows "sin (scenario_theta d) = (600 * d + d * d) / 90000"
proof -
  note dom = scenario_arg_domain [OF assms]
  have "sin (scenario_theta d) = cos (2 * arccos (scenario_arg d))"
    by (simp add: scenario_theta_def sin_cos_eq [of "pi / 2 - 2 * arccos (scenario_arg d)"])
  also have "\<dots> = 2 * (scenario_arg d)\<^sup>2 - 1"
    by (simp add: cos_double_cos cos_arccos [OF dom])
  also have "\<dots> = (600 * d + d * d) / 90000"
    by (simp add: scenario_arg_eq power2_eq_square field_simps)
  finally show ?thesis .
qed

lemma scenario_theta_half: "2 * scenario_theta 1 < scenario_theta 2"
proof -
  have t1: "0 < scenario_theta 1" "scenario_theta 1 < pi / 2"
    using scenario_theta_pos [of 1] scenario_theta_less [of 1] by simp_all
  have t2: "0 < scenario_theta 2" "scenario_theta 2 < pi / 2"
    using scenario_theta_pos [of 2] scenario_theta_less [of 2] by simp_all
  have s1: "sin (scenario_theta 1) = 601 / 90000"
    using sin_scenario_theta [of 1] by simp
  have s2: "sin (scenario_theta 2) = 1204 / 90000"
    using sin_scenario_theta [of 2] by simp
  have "sin (scenario_theta 1) \<le> sin (pi / 4)"
  proof -
    have "(1::real) \<le> sqrt 2" by simp
    then have "601 / 90000 \<le> sqrt 2 / 2" by linarith
    then show ?thesis by (simp add: s1 sin_45)
  qed
  then have q: "scenario_theta 1 \<le> pi / 4"
    using t1 by (subst (asm) sin_mono_le_eq) simp_all
  have "cos (scenario_theta 1) \<le> 1" by simp
  then have "sin (2 * scenario_theta 1) \<le> 2 * sin (scenario_theta 1)"
    using t1 by (simp add: sin_double s1)
  also have "\<dots> < sin (scenario_theta 2)" by (simp add: s1 s2)
  finally have "sin (2 * scenario_theta 1) < sin (scenario_theta 2)" .
  then show ?thesis
    using t1 t2 q by (subst (asm) sin_mono_less_eq) simp_all
qed

section \<open>The angle series\<close>

lemma specimen_angles:
  assumes "specimen s" "i < number_mesures s"
  shows "inter_fiber_angle s ! i =
           np_mul (Fin 2)
             (np_arccos (np_div (np_add (displacement s ! i) (Fin (diagonal_pf s)))
                                (Fin (2 * length_side_pf s))))"
    and "shear_angle s ! i = np_sub (Fin (pi / 2)) (inter_fiber_angle s ! i)"
proof -
  have k: "consistent s" by (rule specimen_consistent [OF assms(1)])
  then have l: "length (displacement s) = number_mesures s"
    "length (inter_fiber_angle s) = number_mesures s"
    and a: "inter_fiber_angle s =
       calculate_inter_fibre_angle (displacement s) (diagonal_pf s) (length_side_pf s)"
    and b: "shear_angle s = calculate_shear_angle (inter_fiber_angle s)"
    by (simp_all add: consistent_def)
  have "inter_fiber_angle s ! i =
      calculate_inter_fibre_angle (displacement s) (diagonal_pf s) (length_side_pf s) ! i"
    using a by simp
  then show "inter_fiber_angle s ! i =
           np_mul (Fin 2)
             (np_arccos (np_div (np_add (displacement s ! i) (Fin (diagonal_pf s)))
                                (Fin (2 * length_side_pf s))))"
    using assms(2) l by (simp add: calculate_inter_fibre_angle_def)
  have "shear_angle s ! i = calculate_shear_angle (inter_fiber_angle s) ! i"
    using b by simp
  then show "shear_angle s ! i = np_sub (Fin (pi / 2)) (inter_fiber_angle s ! i)"
    using assms(2) l by (simp add: calculate_shear_angle_def)
qed

lemma scenario_inter_fiber_1:
  "inter_fiber_angle scenario ! 1 = Fin (2 * arccos (301 / (2 * (300 / sqrt 2))))"
  using specimen_angles(1) [OF scenario_specimen, of 1] scenario_domain
  by (simp add: scenario_fields)

text \<open>
  C9. For every specimen and every index \<open>i\<close> whose arccos argument
  \<open>(displacement[i] + diagonal_pf) / (2 * length_side_pf)\<close> lies in [-1, 1]:
  \<open>inter_fiber_angle[i]\<close> is twice the arccos of that argument,
  \<open>shear_angle[i]\<close> is \<open>pi/2 - inter_fiber_angle[i]\<close>, and the two angles add up
  to \<open>pi/2\<close>. (Finite arithmetic is exact in this embedding.)
\<close>

theorem angle_kinematics:
  assumes "specimen s" "i < number_mesures s" "displacement s ! i = Fin x"
    and "- 1 \<le> (x + diagonal_pf s) / (2 * length_side_pf s)"
    and "(x + diagonal_pf s) / (2 * length_side_pf s) \<le> 1"
  shows "inter_fiber_angle s ! i =
           Fin (2 * arccos ((x + diagonal_pf s) / (2 * length_side_pf s))) \<and>
         shear_angle s ! i =
           Fin (pi / 2 - 2 * arccos ((x + diagonal_pf s) / (2 * length_side_pf s))) \<and>
         shear_angle s ! i = np_sub (Fin (pi / 2)) (inter_fiber_angle s ! i) \<and>
         np_add (shear_angle s ! i) (inter_fiber_angle s ! i) = Fin (pi / 2)"
proof -
  have "length_side_pf s \<noteq> 0"
    by (rule consistent_length_side_pf [OF specimen_consistent [OF assms(1)]])
  with assms(3-5) specimen_angles [OF assms(1,2)] show ?thesis
    by (simp add: np_sub_def)
qed

text \<open>The second sample of the scenario.\<close>

theorem angle_kinematics_witness:
  "inter_fiber_angle scenario ! 1 = Fin (2 * arccos ((1 + 300) / (2 * (300 / sqrt 2)))) \<and>
   shear_angle scenario ! 1 = Fin (pi / 2 - 2 * arccos ((1 + 300) / (2 * (300 / sqrt 2)))) \<and>
   shear_angle scenario ! 1 = np_sub (Fin (pi / 2)) (inter_fiber_angle scenario ! 1) \<and>
   np_add (shear_angle scenario ! 1) (inter_fiber_angle scenario ! 1) = Fin (pi / 2)"
proof -
  have i: "1 < number_mesures scenario" and d: "displacement scenario ! 1 = Fin 1"
    by (simp_all add: scenario_fields)
  have dom: "- 1 \<le> (1 + diagonal_pf scenario) / (2 * length_side_pf scenario)"
    "(1 + diagonal_pf scenario) / (2 * length_side_pf scenario) \<le> 1"
    using scenario_domain by (simp_all only: scenario_fields)
  show ?thesis
    by (rule angle_kinematics [OF scenario_specimen i d dom, unfolded scenario_fields(4,5)])
qed

text \<open>
  C3, as the code has it. The angle computation has no domain check and raises
  nothing: whenever the two arrays have the same size and the geometry passes
  the ratio check, construction succeeds, and at every index whose arccos
  argument lies outside [-1, 1] both the inter-fibre angle and the shear angle
  are \<open>NaN\<close>.
\<close>

theorem angle_out_of_domain:
  assumes "length d = length f" "w \<noteq> 0" "2 \<le> l / w"
  shows "\<exists>s. BiasTest_init d f w l t nm = Inr s \<and>
           (\<forall>i x. i < length d \<longrightarrow> d ! i = Fin x \<longrightarrow>
              \<not> (- 1 \<le> (x + (l - w)) / (2 * ((l - w) / sqrt 2)) \<and>
                 (x + (l - w)) / (2 * ((l - w) / sqrt 2)) \<le> 1) \<longrightarrow>
              inter_fiber_angle s ! i = NaN \<and> shear_angle s ! i = NaN)"
proof -
  from assms obtain s where s: "BiasTest_init d f w l t nm = Inr s"
    by (simp add: BiasTest_init_def Let_def)
  then have sp: "specimen s" by (rule specimen.constructed)
  from s assms have flds: "displacement s = d" "number_mesures s = length d"
    "diagonal_pf s = l - w" "length_side_pf s = (l - w) / sqrt 2"
    by (auto simp: BiasTest_init_def Let_def)
  have side: "length_side_pf s \<noteq> 0"
    by (rule consistent_length_side_pf [OF specimen_consistent [OF sp]])
  have "inter_fiber_angle s ! i = NaN \<and> shear_angle s ! i = NaN"
    if i: "i < length d" and x: "d ! i = Fin x"
      and o: "\<not> (- 1 \<le> (x + (l - w)) / (2 * ((l - w) / sqrt 2)) \<and>
                 (x + (l - w)) / (2 * ((l - w) / sqrt 2)) \<le> 1)" for i x
  proof -
    from i have i': "i < number_mesures s" by (simp add: flds)
    have "inter_fiber_angle s ! i = NaN"
      using specimen_angles(1) [OF sp i'] x o side by (simp add: flds)
    with specimen_angles(2) [OF sp i'] show ?thesis by (simp add: np_sub_def)
  qed
  with s show ?thesis by blast
qed

text \<open>A displacement of 1000 on the scenario's geometry: the argument is about 3.06.\<close>

theorem angle_out_of_domain_witness:
  "\<exists>s. BiasTest_init [Fin 0, Fin 1000] [Fin 0, Fin 10] 150 450 1 ''Flax 250'' = Inr s \<and>
     inter_fiber_angle s ! 1 = NaN \<and> shear_angle s ! 1 = NaN"
proof -
  have e: "(1000 + (450 - 150)) / (2 * ((450 - 150) / sqrt 2)) = 1300 * sqrt 2 / 600" by simp
  have "1 \<le> sqrt 2" by simp
  then have "1 < 1300 * sqrt 2 / 600" by linarith
  then have o: "\<not> (- 1 \<le> (1000 + (450 - 150)) / (2 * ((450 - 150) / sqrt 2)) \<and>
                 (1000 + (450 - 150)) / (2 * ((450 - 150) / sqrt 2)) \<le> 1)"
    unfolding e by simp
  have "length [Fin 0, Fin 1000] = length [Fin 0, Fin 10]" "(150::real) \<noteq> 0"
    "(2::real) \<le> 450 / 150"
    by simp_all
  from angle_out_of_domain [OF this, of 1 "''Flax 250''"]
  obtain s where s: "BiasTest_init [Fin 0, Fin 1000] [Fin 0, Fin 10] 150 450 1 ''Flax 250'' = Inr s"
    and a: "\<forall>i x. i < length [Fin 0, Fin 1000] \<longrightarrow> [Fin 0, Fin 1000] ! i = Fin x \<longrightarrow>
              \<not> (- 1 \<le> (x + (450 - 150)) / (2 * ((450 - 150) / sqrt 2)) \<and>
                 (x + (450 - 150)) / (2 * ((450 - 150) / sqrt 2)) \<le> 1) \<longrightarrow>
              inter_fiber_angle s ! i = NaN \<and> shear_angle s ! i = NaN"
    by blast
  have "(1::nat) < length [Fin 0, Fin 1000]" "[Fin 0, Fin 1000] ! 1 = Fin 1000" by simp_all
  with a o have "inter_fiber_angle s ! 1 = NaN \<and> shear_angle s ! 1 = NaN" by blast
  with s show ?thesis by blast
qed

text \<open>
  The same input evaluated directly: construction returns an object, with
  \<open>NaN\<close> at index 1 of both angle series.
\<close>

theorem angle_domain_error_counterexample:
  "\<not> isl overtravel_sample \<and>
   inter_fiber_angle (projr overtravel_sample) ! 1 = NaN \<and>
   shear_angle (projr overtravel_sample) ! 1 = NaN"
proof -
  have ok: "\<not> isl overtravel_sample"
    by (subst overtravel_Inr) simp
  have i: "1 < number_mesures (projr overtravel_sample)"
    by (simp add: overtravel_fields)
  have d: "displacement (projr overtravel_sample) ! 1 = Fin 1000"
    by (simp add: overtravel_fields)
  have a: "inter_fiber_angle (projr overtravel_sample) ! 1 = NaN"
    using specimen_angles(1) [OF overtravel_specimen i] overtravel_nan
    by (simp only: d overtravel_fields(3,4) np_mul.simps)
  have "shear_angle (projr overtravel_sample) ! 1 = np_sub (Fin (pi / 2)) NaN"
    using specimen_angles(2) [OF overtravel_specimen i] unfolding a .
  then have "shear_angle (projr overtravel_sample) ! 1 = NaN"
    by (simp add: np_sub_def)
  with ok a show ?thesis by blast
qed

section \<open>Construction\<close>

lemma calculate_inter_fibre_angle_py_finite:
  "calculate_inter_fibre_angle_py d (Fin diag) (Fin side) = calculate_inter_fibre_angle d diag side"
  by (simp add: calculate_inter_fibre_angle_py_def calculate_inter_fibre_angle_def)

lemma BiasTest_init_py_finite:
  "BiasTest_init_py (Numbers d) (Numbers f) (Fin w) (Fin l) (Fin t) nm =
     (case BiasTest_init d f w l t nm of Inl e \<Rightarrow> Inl e | Inr s \<Rightarrow> Inr (of_finite s))"
  by (simp add: BiasTest_init_py_def BiasTest_init_def np_asarray_def py_div_def bind_err_def
      of_finite_def Let_def np_sub_def calculate_inter_fibre_angle_py_finite)

text \<open>
  C5, as the code has it. Construction fails with ValueError exactly when one of
  the two series does not convert to a numeric array, or the arrays differ in
  size, or the width is non-zero and \<open>length / width < 2.0\<close> holds as a comparison
  of floats; with arrays of equal size and a zero width it fails with
  ZeroDivisionError; in every other case it succeeds. Nothing examines the
  thickness, the signs of width and length, or whether a parameter is finite: the
  comparison is false when the width or the length is \<open>NaN\<close>, and such a geometry
  is accepted. What holds of every constructed object is that
  \<open>ratio < 2.0\<close> is false, where \<open>ratio\<close> is the float \<open>length / width\<close>; for a
  finite, non-zero width and a finite length the comparison is that of the real
  quotient with 2, and a length of 1.9 times the width is refused with
  ValueError.
\<close>

theorem construction_validation:
  "(BiasTest_init_py da fa w l t nm = Inl ValueError \<longleftrightarrow>
      da = Unconvertible \<or> fa = Unconvertible \<or>
      (\<exists>d f. da = Numbers d \<and> fa = Numbers f \<and>
         (length d \<noteq> length f \<or> (w \<noteq> Fin 0 \<and> np_lt (np_div l w) (Fin 2))))) \<and>
   (BiasTest_init_py da fa w l t nm = Inl ZeroDivisionError \<longleftrightarrow>
      (\<exists>d f. da = Numbers d \<and> fa = Numbers f \<and> length d = length f \<and> w = Fin 0)) \<and>
   ((\<exists>s. BiasTest_init_py da fa w l t nm = Inr s) \<longleftrightarrow>
      (\<exists>d f. da = Numbers d \<and> fa = Numbers f \<and> length d = length f \<and>
         w \<noteq> Fin 0 \<and> \<not> np_lt (np_div l w) (Fin 2))) \<and>
   (\<forall>s. BiasTest_init_py da fa w l t nm = Inr s \<longrightarrow>
      width s = w \<and> length_mm s = l \<and> thickness s = t \<and> ratio s = np_div l w \<and>
      \<not> np_lt (ratio s) (Fin 2)) \<and>
   (\<forall>w' l'. w = Fin w' \<longrightarrow> l = Fin l' \<longrightarrow> w' \<noteq> 0 \<longrightarrow>
      (np_lt (np_div l w) (Fin 2) \<longleftrightarrow> l' / w' < 2)) \<and>
   (w = NaN \<or> l = NaN \<longrightarrow> \<not> np_lt (np_div l w) (Fin 2)) \<and>
   (\<forall>w'. w = Fin w' \<longrightarrow> w' \<noteq> 0 \<longrightarrow>
      BiasTest_init_py da fa w (Fin (1.9 * w')) t nm = Inl ValueError)"
proof -
  have a: "BiasTest_init_py da fa w l t nm = Inl ValueError \<longleftrightarrow>
      da = Unconvertible \<or> fa = Unconvertible \<or>
      (\<exists>d f. da = Numbers d \<and> fa = Numbers f \<and>
         (length d \<noteq> length f \<or> (w \<noteq> Fin 0 \<and> np_lt (np_div l w) (Fin 2))))"
    by (cases da; cases fa)
       (simp_all add: BiasTest_init_py_def np_asarray_def py_div_def bind_err_def Let_def)
  have b: "BiasTest_init_py da fa w l t nm = Inl ZeroDivisionError \<longleftrightarrow>
      (\<exists>d f. da = Numbers d \<and> fa = Numbers f \<and> length d = length f \<and> w = Fin 0)"
    by (cases da; cases fa)
       (simp_all add: BiasTest_init_py_def np_asarray_def py_div_def bind_err_def Let_def)
  have c: "(\<exists>s. BiasTest_init_py da fa w l t nm = Inr s) \<longleftrightarrow>
      (\<exists>d f. da = Numbers d \<and> fa = Numbers f \<and> length d = length f \<and>
         w \<noteq> Fin 0 \<and> \<not> np_lt (np_div l w) (Fin 2))"
    by (cases da; cases fa)
       (auto simp: BiasTest_init_py_def np_asarray_def py_div_def bind_err_def Let_def)
  have e: "width s = w \<and> length_mm s = l \<and> thickness s = t \<and> ratio s = np_div l w \<and>
      \<not> np_lt (ratio s) (Fin 2)"
    if "BiasTest_init_py da fa w l t nm = Inr s" for s
    using that
    by (cases da; cases fa)
       (auto simp: BiasTest_init_py_def np_asarray_def py_div_def bind_err_def Let_def
             split: if_splits)
  have g: "np_lt (np_div l w) (Fin 2) \<longleftrightarrow> l' / w' < 2"
    if "w = Fin w'" "l = Fin l'" "w' \<noteq> 0" for w' l'
    using that by simp
  have h: "\<not> np_lt (np_div l w) (Fin 2)" if "w = NaN \<or> l = NaN"
    using that by (cases l; cases w) auto
  have k: "BiasTest_init_py da fa w (Fin (1.9 * w')) t nm = Inl ValueError"
    if "w = Fin w'" "w' \<noteq> 0" for w'
    using that
    by (cases da; cases fa)
       (simp_all add: BiasTest_init_py_def np_asarray_def py_div_def bind_err_def Let_def)
  from a b c e g h k show ?thesis by blast
qed

text \<open>
  A ratio of 1.9, arrays of different sizes, a series that does not convert, a
  ratio just below 2, a zero width, and the geometry of the scenario.
\<close>

theorem construction_validation_witness:
  "BiasTest_init_py (Numbers [Fin 0, Fin 1]) (Numbers [Fin 0, Fin 10]) (Fin 150) (Fin (1.9 * 150))
       (Fin 1) ''Flax 250'' = Inl ValueError \<and>
   BiasTest_init_py (Numbers [Fin 0, Fin 1]) (Numbers [Fin 0]) (Fin 150) (Fin 450) (Fin 1)
       ''Flax 250'' = Inl ValueError \<and>
   BiasTest_init_py Unconvertible (Numbers [Fin 0]) (Fin 150) (Fin 450) (Fin 1)
       ''Flax 250'' = Inl ValueError \<and>
   BiasTest_init_py (Numbers [Fin 0, Fin 1]) (Numbers [Fin 0, Fin 10]) (Fin 150) (Fin 299) (Fin 1)
       ''Flax 250'' = Inl ValueError \<and>
   BiasTest_init_py (Numbers [Fin 0, Fin 1]) (Numbers [Fin 0, Fin 10]) (Fin 0) (Fin 450) (Fin 1)
       ''Flax 250'' = Inl ZeroDivisionError \<and>
   (\<exists>s. BiasTest_init_py (Numbers [Fin 0, Fin 1]) (Numbers [Fin 0, Fin 10]) (Fin 150) (Fin 450)
          (Fin 1) ''Flax 250'' = Inr s \<and>
        width s = Fin 150 \<and> length_mm s = Fin 450 \<and> thickness s = Fin 1 \<and> ratio s = Fin 3)"
proof -
  have a: "BiasTest_init_py (Numbers [Fin 0, Fin 1]) (Numbers [Fin 0, Fin 10]) (Fin 150)
       (Fin (1.9 * 150)) (Fin 1) ''Flax 250'' = Inl ValueError"
    using construction_validation [of "Numbers [Fin 0, Fin 1]" "Numbers [Fin 0, Fin 10]"
        "Fin 150" "Fin 450" "Fin 1" "''Flax 250''"]
    by simp
  have b: "BiasTest_init_py (Numbers [Fin 0, Fin 1]) (Numbers [Fin 0]) (Fin 150) (Fin 450) (Fin 1)
       ''Flax 250'' = Inl ValueError"
    using construction_validation [of "Numbers [Fin 0, Fin 1]" "Numbers [Fin 0]"
        "Fin 150" "Fin 450" "Fin 1" "''Flax 250''"]
    by simp
  have c: "BiasTest_init_py Unconvertible (Numbers [Fin 0]) (Fin 150) (Fin 450) (Fin 1)
       ''Flax 250'' = Inl ValueError"
    using construction_validation [of Unconvertible "Numbers [Fin 0]"
        "Fin 150" "Fin 450" "Fin 1" "''Flax 250''"]
    by simp
  have d: "BiasTest_init_py (Numbers [Fin 0, Fin 1]) (Numbers [Fin 0, Fin 10]) (Fin 150) (Fin 299)
       (Fin 1) ''Flax 250'' = Inl ValueError"
    using construction_validation [of "Numbers [Fin 0, Fin 1]" "Numbers [Fin 0, Fin 10]"
        "Fin 150" "Fin 299" "Fin 1" "''Flax 250''"]
    by simp
  have e: "BiasTest_init_py (Numbers [Fin 0, Fin 1]) (Numbers [Fin 0, Fin 10]) (Fin 0) (Fin 450)
       (Fin 1) ''Flax 250'' = Inl ZeroDivisionError"
    using construction_validation [of "Numbers [Fin 0, Fin 1]" "Numbers [Fin 0, Fin 10]"
        "Fin 0" "Fin 450" "Fin 1" "''Flax 250''"]
    by simp
  have f: "\<exists>s. BiasTest_init_py (Numbers [Fin 0, Fin 1]) (Numbers [Fin 0, Fin 10]) (Fin 150)
          (Fin 450) (Fin 1) ''Flax 250'' = Inr s \<and>
        width s = Fin 150 \<and> length_mm s = Fin 450 \<and> thickness s = Fin 1 \<and> ratio s = Fin 3"
  proof -
    note t = construction_validation [of "Numbers [Fin 0, Fin 1]" "Numbers [Fin 0, Fin 10]"
        "Fin 150" "Fin 450" "Fin 1" "''Flax 250''"]
    from t have "\<exists>s. BiasTest_init_py (Numbers [Fin 0, Fin 1]) (Numbers [Fin 0, Fin 10]) (Fin 150)
          (Fin 450) (Fin 1) ''Flax 250'' = Inr s"
      by simp
    then obtain s where s: "BiasTest_init_py (Numbers [Fin 0, Fin 1]) (Numbers [Fin 0, Fin 10])
          (Fin 150) (Fin 450) (Fin 1) ''Flax 250'' = Inr s" ..
    with t have "width s = Fin 150 \<and> length_mm s = Fin 450 \<and> thickness s = Fin 1 \<and>
        ratio s = np_div (Fin 450) (Fin 150)"
      by blast
    with s show ?thesis by auto
  qed
  from a b c d e f show ?thesis by blast
qed

text \<open>
  Accepted by the constructor: a negative, a zero and a \<open>NaN\<close> thickness, a
  negative width and length of ratio 3, an infinite length, and a \<open>NaN\<close> width,
  for which the stored ratio is \<open>NaN\<close> and \<open>2.0 <= ratio\<close> is false. A zero width
  fails with ZeroDivisionError, not with ValueError.
\<close>

theorem construction_validation_counterexample:
  "\<not> isl (BiasTest_init_py (Numbers [Fin 0, Fin 1]) (Numbers [Fin 0, Fin 10]) (Fin 150) (Fin 450)
            (Fin (- 1)) ''Flax 250'') \<and>
   \<not> isl (BiasTest_init_py (Numbers [Fin 0, Fin 1]) (Numbers [Fin 0, Fin 10]) (Fin 150) (Fin 450)
            (Fin 0) ''Flax 250'') \<and>
   \<not> isl (BiasTest_init_py (Numbers [Fin 0, Fin 1]) (Numbers [Fin 0, Fin 10]) (Fin 150) (Fin 450)
            NaN ''Flax 250'') \<and>
   \<not> isl (BiasTest_init_py (Numbers [Fin 0, Fin 1]) (Numbers [Fin 0, Fin 10]) (Fin (- 150))
            (Fin (- 450)) (Fin 1) ''Flax 250'') \<and>
   \<not> isl (BiasTest_init_py (Numbers [Fin 0, Fin 1]) (Numbers [Fin 0, Fin 10]) (Fin 150) PInf
            (Fin 1) ''Flax 250'') \<and>
   \<not> isl (BiasTest_init_py (Numbers [Fin 0, Fin 1]) (Numbers [Fin 0, Fin 10]) NaN (Fin 450)
            (Fin 1) ''Flax 250'') \<and>
   ratio (projr (BiasTest_init_py (Numbers [Fin 0, Fin 1]) (Numbers [Fin 0, Fin 10]) NaN (Fin 450)
            (Fin 1) ''Flax 250'')) = NaN \<and>
   \<not> np_le (Fin 2)
       (ratio (projr (BiasTest_init_py (Numbers [Fin 0, Fin 1]) (Numbers [Fin 0, Fin 10]) NaN
                 (Fin 450) (Fin 1) ''Flax 250''))) \<and>
   BiasTest_init_py (Numbers [Fin 0, Fin 1]) (Numbers [Fin 0, Fin 10]) (Fin 0) (Fin 450)
            (Fin 1) ''Flax 250'' = Inl ZeroDivisionError"
  by (simp add: BiasTest_init_py_def np_asarray_def py_div_def bind_err_def Let_def)

section \<open>Mode A\<close>

lemma torque_loop_at:
  assumes loop: "torque_loop s [k..<n] c = Inr c'" and ki: "k \<le> i" and "i < n"
  shows "torque_step s i (take i c' @ drop i c) = Inr ((take i c' @ drop i c)[i := c' ! i])"
proof -
  have "[k..<n] = [k..<i] @ [i..<n]"
    using assms(2,3) by (metis le_Suc_ex less_imp_le_nat upt_add_eq_append)
  also have "[i..<n] = i # [Suc i..<n]"
    using assms(3) by (rule upt_conv_Cons)
  finally have "[k..<n] = [k..<i] @ i # [Suc i..<n]" .
  with loop obtain c1 where c1: "torque_loop s [k..<i] c = Inr c1"
    and rest: "torque_loop s (i # [Suc i..<n]) c1 = Inr c'"
    by (auto simp: torque_loop_append)
  from rest obtain c2 where c2: "torque_step s i c1 = Inr c2"
    and c': "torque_loop s [Suc i..<n] c2 = Inr c'"
    by (auto split: sum.splits)
  have l1: "length c1 = length c" by (rule torque_loop_length [OF c1])
  have l2: "length c2 = length c1" by (rule torque_step_length [OF c2])
  have l': "length c' = length c2" by (rule torque_loop_length [OF c'])
  from c2 have i: "i < length c1" and upd: "\<exists>v. c2 = c1[i := v]"
    by (auto simp: torque_step_eq_Inr)
  have "c' ! i = c2 ! i" by (rule torque_loop_other [OF c']) simp
  with upd i have c2_eq: "c2 = c1[i := c' ! i]" by auto
  have "c1 = take i c' @ drop i c"
  proof (rule nth_equalityI)
    show "length c1 = length (take i c' @ drop i c)"
      using l1 l2 l' i by simp
  next
    fix j assume j: "j < length c1"
    show "c1 ! j = (take i c' @ drop i c) ! j"
    proof (cases "j < i")
      case True
      have "c' ! j = c2 ! j" by (rule torque_loop_other [OF c']) (use True in simp)
      also have "\<dots> = c1 ! j" by (rule torque_step_other [OF c2]) (use True in simp)
      finally show ?thesis using True i l1 l2 l' by (simp add: nth_append)
    next
      case False
      have "c1 ! j = c ! j" by (rule torque_loop_other [OF c1]) (use False in simp)
      then show ?thesis using False i j l1 l2 l' by (simp add: nth_append min_def)
    qed
  qed
  with c2 c2_eq show ?thesis by simp
qed

lemma torque_low_entries:
  assumes "calculate_shear_torque s = Inr s'"
  shows "shear_torque s' ! 0 = Fin 0"
    and "shear_torque s' ! 1 =
           np_div (np_mul (np_mul (Fin (4 * length_side_pf s)) (force s ! 1))
                          (np_sin (np_div (inter_fiber_angle s ! 1) (Fin 2))))
                  (Fin (4 * sheared_area s - semi_sheared_area s))"
proof -
  from assms obtain c1 c where c1: "torque_bootstrap s = Inr c1"
    and c: "torque_loop s [2..<number_mesures s] c1 = Inr c"
    and s': "s' = s\<lparr>shear_torque := c, shear_torque_computed := True\<rparr>"
    by (auto simp: calculate_shear_torque_eq_Inr)
  define v where "v = np_div (np_mul (np_mul (Fin (4 * length_side_pf s)) (force s ! 1))
                            (np_sin (np_div (inter_fiber_angle s ! 1) (Fin 2))))
                    (Fin (4 * sheared_area s - semi_sheared_area s))"
  from c1 have n: "1 < number_mesures s"
    and c1_eq: "c1 = (replicate (number_mesures s) (Fin 0))[1 := v]"
    by (simp_all add: torque_bootstrap_eq_Inr v_def)
  have "c ! 0 = c1 ! 0" by (rule torque_loop_other [OF c]) simp
  with n show "shear_torque s' ! 0 = Fin 0" by (simp add: c1_eq s')
  have "c ! 1 = c1 ! 1" by (rule torque_loop_other [OF c]) simp
  with n show "shear_torque s' ! 1 =
           np_div (np_mul (np_mul (Fin (4 * length_side_pf s)) (force s ! 1))
                          (np_sin (np_div (inter_fiber_angle s ! 1) (Fin 2))))
                  (Fin (4 * sheared_area s - semi_sheared_area s))"
    by (simp add: c1_eq s' v_def)
qed

lemma torque_entry:
  assumes r: "calculate_shear_torque s = Inr s'" and i: "2 \<le> i" "i < number_mesures s"
  shows "\<exists>st. np_interp (np_div (shear_angle s ! i) (Fin 2)) (shear_angle s)
                (take i (shear_torque s') @ replicate (number_mesures s - i) (Fin 0)) = Inr st \<and>
              shear_torque s' ! i =
                np_mul (Fin (1 / semi_sheared_area s))
                  (np_sub
                     (np_mul (np_mul (Fin (length_side_pf s)) (force s ! i))
                             (np_sin (np_div (inter_fiber_angle s ! i) (Fin 2))))
                     (np_mul (Fin (0.5 * semi_sheared_area s)) st))"
proof -
  from r obtain c1 c where c1: "torque_bootstrap s = Inr c1"
    and c: "torque_loop s [2..<number_mesures s] c1 = Inr c"
    and s': "s' = s\<lparr>shear_torque := c, shear_torque_computed := True\<rparr>"
    by (auto simp: calculate_shear_torque_eq_Inr)
  from c1 obtain v where c1_eq: "c1 = (replicate (number_mesures s) (Fin 0))[1 := v]"
    by (auto simp: torque_bootstrap_eq_Inr)
  have d: "drop i c1 = replicate (number_mesures s - i) (Fin 0)"
    using i(1) by (simp add: c1_eq)
  have lc: "length c = number_mesures s"
    using torque_loop_length [OF c] by (simp add: c1_eq)
  define tab where "tab = take i c @ replicate (number_mesures s - i) (Fin 0)"
  from torque_loop_at [OF c i] d
  have step: "torque_step s i tab = Inr (tab[i := c ! i])" by (simp add: tab_def)
  have lt: "i < length tab" using i(2) lc by (simp add: tab_def)
  from step obtain st where
    st: "np_interp (np_div (shear_angle s ! i) (Fin 2)) (shear_angle s) tab = Inr st"
    and upd: "tab[i := c ! i] = tab[i := np_mul (Fin (1 / semi_sheared_area s))
                 (np_sub
                    (np_mul (np_mul (Fin (length_side_pf s)) (force s ! i))
                            (np_sin (np_div (inter_fiber_angle s ! i) (Fin 2))))
                    (np_mul (Fin (0.5 * semi_sheared_area s)) st))]"
    by (auto simp: torque_step_eq_Inr)
  from upd lt have "c ! i = np_mul (Fin (1 / semi_sheared_area s))
                 (np_sub
                    (np_mul (np_mul (Fin (length_side_pf s)) (force s ! i))
                            (np_sin (np_div (inter_fiber_angle s ! i) (Fin 2))))
                    (np_mul (Fin (0.5 * semi_sheared_area s)) st))"
    by (metis nth_list_update_eq)
  with st show ?thesis unfolding s' tab_def by auto
qed

subsection \<open>The scenario under Mode A\<close>

lemma scenario_inter_fiber:
  "inter_fiber_angle scenario =
     [Fin (2 * arccos (scenario_arg 0)), Fin (2 * arccos (scenario_arg 1)),
      Fin (2 * arccos (scenario_arg 2)), Fin (2 * arccos (scenario_arg 3))]"
proof -
  have s: "300 / sqrt 2 \<noteq> 0" by simp
  have e: "np_mul (Fin 2) (np_arccos (np_div (np_add (Fin d) (Fin 300)) (Fin (2 * (300 / sqrt 2)))))
             = Fin (2 * arccos (scenario_arg d))" if "0 \<le> d" "d \<le> 100" for d
    using s _ scenario_arg_domain [OF that]
    by (rule inter_fibre_entry) (simp add: scenario_arg_def)
  from specimen_consistent [OF scenario_specimen]
  have "inter_fiber_angle scenario =
      calculate_inter_fibre_angle [Fin 0, Fin 1, Fin 2, Fin 3] 300 (300 / sqrt 2)"
    by (simp add: consistent_def scenario_fields)
  then show ?thesis
    using e [of 0] e [of 1] e [of 2] e [of 3]
    by (simp add: calculate_inter_fibre_angle_def)
qed

lemma scenario_shear:
  "shear_angle scenario =
     [Fin (scenario_theta 0), Fin (scenario_theta 1),
      Fin (scenario_theta 2), Fin (scenario_theta 3)]"
proof -
  from specimen_consistent [OF scenario_specimen]
  have "shear_angle scenario = calculate_shear_angle (inter_fiber_angle scenario)"
    by (simp add: consistent_def)
  then show ?thesis
    by (simp add: scenario_inter_fiber calculate_shear_angle_def np_sub_def scenario_theta_def)
qed

lemma scenario_torque_Inr:
  "calculate_shear_torque scenario = Inr (projr (calculate_shear_torque scenario))"
proof -
  have "2 \<le> number_mesures scenario" by (simp add: scenario_fields)
  from calculate_shear_torque_total [OF specimen_consistent [OF scenario_specimen] this]
  show ?thesis by auto
qed

lemma scenario_c1_pos: "0 < scenario_c1"
proof -
  have "- 1 < scenario_arg 1" using scenario_arg_pos [of 1] by simp
  from arccos_lt_bounded [OF this scenario_arg_upper [of 1]]
  have "0 < sin (arccos (scenario_arg 1))" by (intro sin_gt_zero) simp_all
  then show ?thesis by (simp add: scenario_c1_def)
qed

lemma scenario_torque_low:
  "length scenario_torque = 4" "scenario_torque ! 0 = Fin 0" "scenario_torque ! 1 = Fin scenario_c1"
  "take 2 scenario_torque = [Fin 0, Fin scenario_c1]"
proof -
  note f = calculate_shear_torque_frame [OF scenario_torque_Inr]
  from f(2) show l: "length scenario_torque = 4"
    by (simp add: scenario_torque_def scenario_fields)
  from torque_low_entries(1) [OF scenario_torque_Inr]
  show z: "scenario_torque ! 0 = Fin 0" by (simp add: scenario_torque_def)
  have "force scenario ! 1 = Fin 10" "inter_fiber_angle scenario ! 1 = Fin (2 * arccos (scenario_arg 1))"
    by (simp_all add: scenario_fields scenario_inter_fiber)
  with torque_low_entries(2) [OF scenario_torque_Inr]
  show o: "scenario_torque ! 1 = Fin scenario_c1"
    by (simp add: scenario_torque_def scenario_fields scenario_c1_def)
  from l z o show "take 2 scenario_torque = [Fin 0, Fin scenario_c1]"
    by (simp add: list_eq_iff_nth_eq nth_Cons' less_Suc_eq numeral_2_eq_2)
qed

lemma scenario_order:
  "scenario_theta 0 \<le> scenario_theta 2 / 2" "scenario_theta 1 < scenario_theta 2 / 2"
  "scenario_theta 2 / 2 < scenario_theta 2" "scenario_theta 2 / 2 \<le> scenario_theta 3"
proof -
  have p: "0 < scenario_theta 2" using scenario_theta_pos [of 2] by simp
  have m: "scenario_theta 2 < scenario_theta 3" using scenario_theta_mono [of 2 3] by simp
  from p show "scenario_theta 0 \<le> scenario_theta 2 / 2" by (simp add: scenario_theta_0)
  from scenario_theta_half show "scenario_theta 1 < scenario_theta 2 / 2" by simp
  from p show "scenario_theta 2 / 2 < scenario_theta 2" by simp
  from p m show "scenario_theta 2 / 2 \<le> scenario_theta 3" by simp
qed

lemma scenario_query: "np_div (shear_angle scenario ! 2) (Fin 2) = Fin (scenario_theta 2 / 2)"
  by (simp add: scenario_shear)

lemma scenario_interp_whole:
  "np_interp (Fin (scenario_theta 2 / 2)) (shear_angle scenario)
     [Fin 0, Fin scenario_c1, Fin 0, Fin 0]
     = Inr (Fin ((0 - scenario_c1) / (scenario_theta 2 - scenario_theta 1) *
                 (scenario_theta 2 / 2 - scenario_theta 1) + scenario_c1))"
  unfolding scenario_shear
  by (rule interp_four_second_segment [OF scenario_order(4,1,2,3)])

lemma scenario_interp_prefix:
  "np_interp (Fin (scenario_theta 2 / 2)) (take 2 (shear_angle scenario))
     [Fin 0, Fin scenario_c1] = Inr (Fin scenario_c1)"
proof -
  have "take 2 (shear_angle scenario) = [Fin (scenario_theta 0), Fin (scenario_theta 1)]"
    by (simp add: scenario_shear numeral_2_eq_2)
  then show ?thesis by (simp add: interp_two_right [OF scenario_order(2)])
qed

lemma scenario_interp_differ:
  "(0 - scenario_c1) / (scenario_theta 2 - scenario_theta 1) *
     (scenario_theta 2 / 2 - scenario_theta 1) + scenario_c1 \<noteq> scenario_c1"
proof -
  have "scenario_theta 1 < scenario_theta 2" using scenario_order(2,3) by simp
  then have "scenario_theta 2 - scenario_theta 1 \<noteq> 0" by simp
  moreover have "scenario_theta 2 / 2 - scenario_theta 1 \<noteq> 0" using scenario_order(2) by simp
  moreover have "0 - scenario_c1 \<noteq> 0" using scenario_c1_pos by simp
  ultimately show ?thesis by simp
qed

subsection \<open>The claims\<close>

text \<open>
  C1, as the code has it. For every specimen and every index \<open>i\<close> from 2 to
  \<open>N - 1\<close> the computation succeeds and
  \<open>c[i] = (1/a) * (L * F[i] * sin(theta_f[i] / 2) - 0.5 * a * semi_torque)\<close>, where
  \<open>semi_torque\<close> is \<open>np.interp\<close> at \<open>theta_s[i] / 2\<close> over the whole table: all
  \<open>N\<close> shear angles as x-coordinates, and as y-values \<open>c[0..i-1]\<close> followed by
  zeros at the indices \<open>i..N-1\<close> that are not computed yet. Both ends of that
  table hold zero, so a query outside the range of the whole angle series gives
  \<open>semi_torque = 0\<close>.
\<close>

theorem mode_a_recurrence:
  assumes "specimen s" "2 \<le> i" "i < number_mesures s"
  shows "\<exists>s' st. calculate_shear_torque s = Inr s' \<and>
           np_interp (np_div (shear_angle s ! i) (Fin 2)) (shear_angle s)
             (take i (shear_torque s') @ replicate (number_mesures s - i) (Fin 0)) = Inr st \<and>
           shear_torque s' ! i =
             np_mul (Fin (1 / semi_sheared_area s))
               (np_sub
                  (np_mul (np_mul (Fin (length_side_pf s)) (force s ! i))
                          (np_sin (np_div (inter_fiber_angle s ! i) (Fin 2))))
                  (np_mul (Fin (0.5 * semi_sheared_area s)) st)) \<and>
           (\<forall>f t y. force s ! i = Fin f \<longrightarrow> inter_fiber_angle s ! i = Fin t \<longrightarrow> st = Fin y \<longrightarrow>
              shear_torque s' ! i =
                Fin (1 / semi_sheared_area s *
                     (length_side_pf s * f * sin (t / 2) - 0.5 * semi_sheared_area s * y))) \<and>
           (np_lt (last (shear_angle s)) (np_div (shear_angle s ! i) (Fin 2)) \<or>
            np_lt (np_div (shear_angle s ! i) (Fin 2)) (hd (shear_angle s)) \<longrightarrow> st = Fin 0)"
proof -
  have k: "consistent s" by (rule specimen_consistent [OF assms(1)])
  from assms have n2: "2 \<le> number_mesures s" by simp
  from calculate_shear_torque_total [OF k n2]
  obtain s' where r: "calculate_shear_torque s = Inr s'" by blast
  then obtain c1 c where c1: "torque_bootstrap s = Inr c1"
    and c: "torque_loop s [2..<number_mesures s] c1 = Inr c"
    and s': "s' = s\<lparr>shear_torque := c, shear_torque_computed := True\<rparr>"
    by (auto simp: calculate_shear_torque_eq_Inr)
  from c1 obtain v where c1_eq: "c1 = (replicate (number_mesures s) (Fin 0))[1 := v]"
    by (auto simp: torque_bootstrap_eq_Inr)
  have d: "drop i c1 = replicate (number_mesures s - i) (Fin 0)"
    using assms(2) by (simp add: c1_eq)
  have lc: "length c = number_mesures s"
    using torque_loop_length [OF c] by (simp add: c1_eq)
  define tab where "tab = take i c @ replicate (number_mesures s - i) (Fin 0)"
  from torque_loop_at [OF c assms(2,3)] d
  have step: "torque_step s i tab = Inr (tab[i := c ! i])" by (simp add: tab_def)
  have lt: "length tab = number_mesures s" "i < length tab"
    using assms(3) lc by (simp_all add: tab_def)
  from step obtain st where
    st: "np_interp (np_div (shear_angle s ! i) (Fin 2)) (shear_angle s) tab = Inr st"
    and upd: "tab[i := c ! i] = tab[i := np_mul (Fin (1 / semi_sheared_area s))
                 (np_sub
                    (np_mul (np_mul (Fin (length_side_pf s)) (force s ! i))
                            (np_sin (np_div (inter_fiber_angle s ! i) (Fin 2))))
                    (np_mul (Fin (0.5 * semi_sheared_area s)) st))]"
    by (auto simp: torque_step_eq_Inr)
  from upd lt(2) have val: "c ! i = np_mul (Fin (1 / semi_sheared_area s))
                 (np_sub
                    (np_mul (np_mul (Fin (length_side_pf s)) (force s ! i))
                            (np_sin (np_div (inter_fiber_angle s ! i) (Fin 2))))
                    (np_mul (Fin (0.5 * semi_sheared_area s)) st))"
    by (metis nth_list_update_eq)
  have fin: "c ! i = Fin (1 / semi_sheared_area s *
                     (length_side_pf s * f * sin (t / 2) - 0.5 * semi_sheared_area s * y))"
    if "force s ! i = Fin f" "inter_fiber_angle s ! i = Fin t" "st = Fin y" for f t y
    using that by (simp add: val np_sub_def)
  have c0: "c ! 0 = Fin 0"
  proof -
    have "c ! 0 = c1 ! 0" by (rule torque_loop_other [OF c]) simp
    then show ?thesis using n2 by (simp add: c1_eq)
  qed
  have ends: "last tab = Fin 0" "hd tab = Fin 0"
    using assms(2,3) lc c0 by (simp_all add: tab_def hd_append hd_conv_nth)
  have sa: "shear_angle s \<noteq> []" "length tab = length (shear_angle s)"
    using k lt(1) assms(3) by (auto simp: consistent_def)
  have len2: "2 \<le> length (shear_angle s)"
    using sa(2) lt(1) n2 by simp
  have flat: "st = Fin 0"
    if "np_lt (last (shear_angle s)) (np_div (shear_angle s ! i) (Fin 2)) \<or>
        np_lt (np_div (shear_angle s ! i) (Fin 2)) (hd (shear_angle s))"
  proof (cases "np_lt (last (shear_angle s)) (np_div (shear_angle s ! i) (Fin 2))")
    case True
    from np_interp_right [OF len2 sa(2) True] st ends show ?thesis by simp
  next
    case False
    with that have "np_lt (np_div (shear_angle s ! i) (Fin 2)) (hd (shear_angle s))" by simp
    from np_interp_left [OF len2 sa(2) False this] st ends show ?thesis by simp
  qed
  from r st val fin flat show ?thesis unfolding s' tab_def by auto
qed

text \<open>
  The scenario at index 2. The table is the four shear angles against
  \<open>[0, c[1], 0, 0]\<close>; half of the third angle lies between the second and the
  third, and the value read is on the segment from \<open>c[1]\<close> down to the zero that
  index 2 still holds.
\<close>

theorem mode_a_recurrence_witness:
  "\<exists>s' st. calculate_shear_torque scenario = Inr s' \<and>
     take 2 (shear_torque s') @ replicate (number_mesures scenario - 2) (Fin 0)
       = [Fin 0, Fin scenario_c1, Fin 0, Fin 0] \<and>
     np_interp (np_div (shear_angle scenario ! 2) (Fin 2)) (shear_angle scenario)
       [Fin 0, Fin scenario_c1, Fin 0, Fin 0] = Inr st \<and>
     st = Fin ((0 - scenario_c1) / (scenario_theta 2 - scenario_theta 1) *
               (scenario_theta 2 / 2 - scenario_theta 1) + scenario_c1) \<and>
     shear_torque s' ! 2 =
       np_mul (Fin (1 / semi_sheared_area scenario))
         (np_sub
            (np_mul (np_mul (Fin (length_side_pf scenario)) (force scenario ! 2))
                    (np_sin (np_div (inter_fiber_angle scenario ! 2) (Fin 2))))
            (np_mul (Fin (0.5 * semi_sheared_area scenario)) st))"
proof -
  have i: "(2::nat) \<le> 2" "2 < number_mesures scenario"
    by (simp_all add: scenario_fields)
  from mode_a_recurrence [OF scenario_specimen i]
  obtain s' st where r: "calculate_shear_torque scenario = Inr s'"
    and t: "np_interp (np_div (shear_angle scenario ! 2) (Fin 2)) (shear_angle scenario)
              (take 2 (shear_torque s') @ replicate (number_mesures scenario - 2) (Fin 0))
            = Inr st"
    and v: "shear_torque s' ! 2 =
       np_mul (Fin (1 / semi_sheared_area scenario))
         (np_sub
            (np_mul (np_mul (Fin (length_side_pf scenario)) (force scenario ! 2))
                    (np_sin (np_div (inter_fiber_angle scenario ! 2) (Fin 2))))
            (np_mul (Fin (0.5 * semi_sheared_area scenario)) st))"
    by blast
  from r have "shear_torque s' = scenario_torque" by (simp add: scenario_torque_def)
  then have tab: "take 2 (shear_torque s') @ replicate (number_mesures scenario - 2) (Fin 0)
       = [Fin 0, Fin scenario_c1, Fin 0, Fin 0]"
    by (simp only: scenario_torque_low(4) scenario_fields(1)) (simp add: numeral_2_eq_2)
  from t have t': "np_interp (np_div (shear_angle scenario ! 2) (Fin 2)) (shear_angle scenario)
       [Fin 0, Fin scenario_c1, Fin 0, Fin 0] = Inr st"
    by (simp only: tab)
  then have st: "st = Fin ((0 - scenario_c1) / (scenario_theta 2 - scenario_theta 1) *
               (scenario_theta 2 / 2 - scenario_theta 1) + scenario_c1)"
    by (simp only: scenario_query scenario_interp_whole sum.inject)
  from r tab t' st v show ?thesis by blast
qed

text \<open>
  The same index with the table the specification describes, the pairs before
  index 2: half of the third angle lies beyond the second angle, the table ends
  there, and the value read is \<open>c[1]\<close> itself. The two values differ, and so do
  the entries computed from them.
\<close>

theorem mode_a_prefix_table_counterexample:
  "\<not> isl (calculate_shear_torque scenario) \<and>
   np_interp (np_div (shear_angle scenario ! 2) (Fin 2)) (take 2 (shear_angle scenario))
       (take 2 scenario_torque) = Inr (scenario_torque ! 1) \<and>
   np_interp (np_div (shear_angle scenario ! 2) (Fin 2)) (shear_angle scenario)
       (take 2 scenario_torque @ replicate (number_mesures scenario - 2) (Fin 0))
     \<noteq> Inr (scenario_torque ! 1) \<and>
   \<not> isl (spec_mode_a_value scenario scenario_torque 2) \<and>
   spec_mode_a_value scenario scenario_torque 2 \<noteq> Inr (scenario_torque ! 2)"
proof -
  let ?x = "np_div (shear_angle scenario ! 2) (Fin 2)"
  let ?whole = "take 2 scenario_torque @ replicate (number_mesures scenario - 2) (Fin 0)"
  let ?st = "(0 - scenario_c1) / (scenario_theta 2 - scenario_theta 1) *
                 (scenario_theta 2 / 2 - scenario_theta 1) + scenario_c1"
  define k where "k = 300 / sqrt 2 * 20 * sin (2 * arccos (scenario_arg 2) / 2)"
  have ok: "\<not> isl (calculate_shear_torque scenario)"
    by (subst scenario_torque_Inr) simp
  have tab: "?whole = [Fin 0, Fin scenario_c1, Fin 0, Fin 0]"
    by (simp only: scenario_torque_low(4) scenario_fields(1)) (simp add: numeral_2_eq_2)
  have prefix: "np_interp ?x (take 2 (shear_angle scenario)) (take 2 scenario_torque)
      = Inr (scenario_torque ! 1)"
    by (simp only: scenario_query scenario_torque_low scenario_interp_prefix)
  have whole: "np_interp ?x (shear_angle scenario) ?whole = Inr (Fin ?st)"
    by (simp only: scenario_query tab scenario_interp_whole)
  have differ: "np_interp ?x (shear_angle scenario) ?whole \<noteq> Inr (scenario_torque ! 1)"
  proof -
    have ne0: "(Inr (Fin ?st) :: py_error + npfloat) \<noteq> Inr (Fin scenario_c1)"
      using scenario_interp_differ by simp
    show ?thesis unfolding whole scenario_torque_low(3) by (rule ne0)
  qed
  have fi: "force scenario ! 2 = Fin 20"
    "inter_fiber_angle scenario ! 2 = Fin (2 * arccos (scenario_arg 2))"
    by (simp_all add: scenario_fields scenario_inter_fiber)
  have spec: "spec_mode_a_value scenario scenario_torque 2
      = Inr (Fin (1 / 22500 * (k - 0.5 * 22500 * scenario_c1)))"
    unfolding spec_mode_a_value_def
    by (simp only: scenario_torque_low(4) scenario_query scenario_interp_prefix bind_err_Inr fi
          scenario_fields)
       (simp add: np_sub_def k_def)
  from torque_entry [OF scenario_torque_Inr, of 2] whole
  have "shear_torque (projr (calculate_shear_torque scenario)) ! 2 =
      np_mul (Fin (1 / semi_sheared_area scenario))
        (np_sub
           (np_mul (np_mul (Fin (length_side_pf scenario)) (force scenario ! 2))
                   (np_sin (np_div (inter_fiber_angle scenario ! 2) (Fin 2))))
           (np_mul (Fin (0.5 * semi_sheared_area scenario)) (Fin ?st)))"
    by (auto simp: scenario_fields scenario_torque_def)
  then have code: "scenario_torque ! 2 = Fin (1 / 22500 * (k - 0.5 * 22500 * ?st))"
    by (simp add: scenario_torque_def fi scenario_fields np_sub_def k_def)
  from scenario_interp_differ
  have "1 / 22500 * (k - 0.5 * 22500 * scenario_c1) \<noteq> 1 / 22500 * (k - 0.5 * 22500 * ?st)"
    by simp
  then have ne1: "(Inr (Fin (1 / 22500 * (k - 0.5 * 22500 * scenario_c1))) :: py_error + npfloat)
      \<noteq> Inr (Fin (1 / 22500 * (k - 0.5 * 22500 * ?st)))"
    by (simp only: sum.inject npfloat.inject) simp
  have ne: "spec_mode_a_value scenario scenario_torque 2 \<noteq> Inr (scenario_torque ! 2)"
    unfolding spec code by (rule ne1)
  have ok2: "\<not> isl (spec_mode_a_value scenario scenario_torque 2)"
    by (simp only: spec) simp
  from ok prefix differ ok2 ne show ?thesis by blast
qed

text \<open>
  C2. For every specimen with at least two samples the computation succeeds,
  \<open>c[0]\<close> is 0 and \<open>c[1]\<close> is
  \<open>4 * L * F[1] * sin(theta_f[1] / 2) / (4 * sheared_area - semi_sheared_area)\<close>:
  the loop leaves both entries as the first two statements set them.
\<close>

theorem mode_a_initialisation:
  assumes "specimen s" "2 \<le> number_mesures s"
  shows "\<exists>s'. calculate_shear_torque s = Inr s' \<and>
           shear_torque s' ! 0 = Fin 0 \<and>
           shear_torque s' ! 1 =
             np_div (np_mul (np_mul (Fin (4 * length_side_pf s)) (force s ! 1))
                            (np_sin (np_div (inter_fiber_angle s ! 1) (Fin 2))))
                    (Fin (4 * sheared_area s - semi_sheared_area s)) \<and>
           (\<forall>f t. force s ! 1 = Fin f \<longrightarrow> inter_fiber_angle s ! 1 = Fin t \<longrightarrow>
              shear_torque s' ! 1 =
                Fin (4 * length_side_pf s * f * sin (t / 2) /
                     (4 * sheared_area s - semi_sheared_area s)))"
proof -
  have k: "consistent s" by (rule specimen_consistent [OF assms(1)])
  from calculate_shear_torque_total [OF k assms(2)]
  obtain s' where r: "calculate_shear_torque s = Inr s'" by blast
  then obtain c1 c where c1: "torque_bootstrap s = Inr c1"
    and c: "torque_loop s [2..<number_mesures s] c1 = Inr c"
    and s': "s' = s\<lparr>shear_torque := c, shear_torque_computed := True\<rparr>"
    by (auto simp: calculate_shear_torque_eq_Inr)
  define v where "v = np_div (np_mul (np_mul (Fin (4 * length_side_pf s)) (force s ! 1))
                            (np_sin (np_div (inter_fiber_angle s ! 1) (Fin 2))))
                    (Fin (4 * sheared_area s - semi_sheared_area s))"
  from c1 have c1_eq: "c1 = (replicate (number_mesures s) (Fin 0))[1 := v]"
    by (simp add: torque_bootstrap_eq_Inr v_def)
  have "c ! 0 = c1 ! 0" by (rule torque_loop_other [OF c]) simp
  with assms(2) have z: "c ! 0 = Fin 0" by (simp add: c1_eq)
  have "c ! 1 = c1 ! 1" by (rule torque_loop_other [OF c]) simp
  with assms(2) have o: "c ! 1 = v" by (simp add: c1_eq)
  have d: "4 * sheared_area s - semi_sheared_area s \<noteq> 0"
    by (rule consistent_bootstrap_divisor [OF k])
  have "v = Fin (4 * length_side_pf s * f * sin (t / 2) /
                 (4 * sheared_area s - semi_sheared_area s))"
    if "force s ! 1 = Fin f" "inter_fiber_angle s ! 1 = Fin t" for f t
    using that d by (simp add: v_def)
  with r z o show ?thesis unfolding s' v_def by auto
qed

text \<open>
  The scenario: \<open>c[1]\<close> is the value the specification computes by
  hand.
\<close>

theorem mode_a_initialisation_witness:
  "\<exists>s'. calculate_shear_torque scenario = Inr s' \<and>
     shear_torque s' ! 0 = Fin 0 \<and>
     shear_torque s' ! 1 =
       Fin (4 * (300 / sqrt 2) * 10 * sin (2 * arccos (301 / (2 * (300 / sqrt 2))) / 2) /
            (4 * 33750 - 22500))"
proof -
  have n: "2 \<le> number_mesures scenario" and f: "force scenario ! 1 = Fin 10"
    by (simp_all add: scenario_fields)
  from mode_a_initialisation [OF scenario_specimen n]
  obtain s' where r: "calculate_shear_torque scenario = Inr s'"
    and z: "shear_torque s' ! 0 = Fin 0"
    and fin: "\<forall>f t. force scenario ! 1 = Fin f \<longrightarrow> inter_fiber_angle scenario ! 1 = Fin t \<longrightarrow>
              shear_torque s' ! 1 =
                Fin (4 * length_side_pf scenario * f * sin (t / 2) /
                     (4 * sheared_area scenario - semi_sheared_area scenario))"
    by blast
  from fin f scenario_inter_fiber_1
  have "shear_torque s' ! 1 =
      Fin (4 * length_side_pf scenario * 10 *
           sin (2 * arccos (301 / (2 * (300 / sqrt 2))) / 2) /
           (4 * sheared_area scenario - semi_sheared_area scenario))"
    by blast
  then have "shear_torque s' ! 1 =
       Fin (4 * (300 / sqrt 2) * 10 * sin (2 * arccos (301 / (2 * (300 / sqrt 2))) / 2) /
            (4 * 33750 - 22500))"
    by (simp only: scenario_fields)
  with r z show ?thesis by blast
qed

text \<open>
  C6, as the code has it. On a specimen with fewer than two samples the
  computation fails, and the exception is the IndexError of the read
  \<open>force[1]\<close>: the code has no check of the number of samples and no error of
  its own for it.
\<close>

theorem insufficient_samples:
  assumes "specimen s" "number_mesures s < 2"
  shows "calculate_shear_torque s = Inl IndexError"
proof -
  from specimen_consistent [OF assms(1)] have "length (force s) = number_mesures s"
    by (simp add: consistent_def)
  with assms(2) have "index_np (force s) 1 = Inl IndexError"
    by (simp add: index_np_def)
  then show ?thesis
    by (simp add: calculate_shear_torque_def torque_bootstrap_def Let_def)
qed

text \<open>The empty series, and a series of one sample evaluated directly.\<close>

theorem insufficient_samples_witness:
  "calculate_shear_torque empty_sample = Inl IndexError"
proof -
  have "number_mesures empty_sample < 2"
    by (simp add: empty_sample_def BiasTest_init_Inr)
  then show ?thesis by (rule insufficient_samples [OF empty_specimen])
qed

theorem insufficient_samples_counterexample:
  "number_mesures single_sample = 1 \<and> calculate_shear_torque single_sample = Inl IndexError"
  by (simp add: single_sample_def BiasTest_init_Inr calculate_shear_torque_def
      torque_bootstrap_def index_np_def)

text \<open>
  C10. On a specimen, a successful \<open>calculate_shear_torque\<close> changes the fields
  \<open>shear_torque\<close> and \<open>shear_torque_computed\<close> and nothing else, and the new
  torque series has the length \<open>N\<close> of the displacement and force series.
\<close>

theorem shear_torque_frame:
  assumes "specimen s" "calculate_shear_torque s = Inr s'"
  shows "s' = s\<lparr>shear_torque := shear_torque s', shear_torque_computed := True\<rparr> \<and>
         displacement s' = displacement s \<and> force s' = force s \<and>
         inter_fiber_angle s' = inter_fiber_angle s \<and> shear_angle s' = shear_angle s \<and>
         shear_force s' = shear_force s \<and> shear_force_computed s' = shear_force_computed s \<and>
         width s' = width s \<and> length_mm s' = length_mm s \<and> thickness s' = thickness s \<and>
         ratio s' = ratio s \<and> semi_sheared_area s' = semi_sheared_area s \<and>
         sheared_area s' = sheared_area s \<and> diagonal_pf s' = diagonal_pf s \<and>
         length_side_pf s' = length_side_pf s \<and> number_mesures s' = number_mesures s \<and>
         name s' = name s \<and> shear_torque_computed s' \<and>
         length (shear_torque s') = number_mesures s \<and>
         length (displacement s) = number_mesures s \<and> length (force s) = number_mesures s"
proof -
  note f = calculate_shear_torque_frame [OF assms(2)]
  from specimen_consistent [OF assms(1)]
  have l: "length (displacement s) = number_mesures s" "length (force s) = number_mesures s"
    by (simp_all add: consistent_def)
  obtain c where s': "s' = s\<lparr>shear_torque := c, shear_torque_computed := True\<rparr>"
    using f(1) by blast
  show ?thesis using f(2) l unfolding s' by simp
qed

text \<open>The three-sample input.\<close>

theorem shear_torque_frame_witness:
  "displacement (projr (calculate_shear_torque half_angle_sample)) =
     displacement half_angle_sample \<and>
   force (projr (calculate_shear_torque half_angle_sample)) = force half_angle_sample \<and>
   shear_angle (projr (calculate_shear_torque half_angle_sample)) =
     shear_angle half_angle_sample \<and>
   shear_force (projr (calculate_shear_torque half_angle_sample)) =
     shear_force half_angle_sample \<and>
   shear_torque_computed (projr (calculate_shear_torque half_angle_sample)) \<and>
   length (shear_torque (projr (calculate_shear_torque half_angle_sample))) = 3"
proof -
  have "2 \<le> number_mesures half_angle_sample" by (simp add: half_angle_fields(1))
  from calculate_shear_torque_total [OF specimen_consistent [OF half_angle_specimen] this]
  have r: "calculate_shear_torque half_angle_sample =
      Inr (projr (calculate_shear_torque half_angle_sample))"
    by auto
  from shear_torque_frame [OF half_angle_specimen r] show ?thesis
    by (simp add: half_angle_fields(1))
qed

section \<open>Mode B\<close>

text \<open>
  C8. On every specimen \<open>calculate_shear_torque_2\<close> succeeds, and entry \<open>i\<close> of
  the result is
  \<open>((H/W - 1) * F[i] * (cos(theta_s[i]/2) - sin(theta_s[i]/2))) / (2*H - 3*W)\<close>:
  a function of \<open>force[i]\<close> and \<open>shear_angle[i]\<close> alone.
\<close>

theorem mode_b_closed_form:
  assumes "specimen s"
  shows "\<exists>s'. calculate_shear_torque_2 s = Inr s' \<and>
           length (shear_torque s') = number_mesures s \<and>
           (\<forall>i<number_mesures s.
              shear_torque s' ! i =
                np_div (np_mul (np_mul (Fin (length_mm s / width s - 1)) (force s ! i))
                               (np_sub (np_cos (np_div (shear_angle s ! i) (Fin 2)))
                                       (np_sin (np_div (shear_angle s ! i) (Fin 2)))))
                       (Fin (2 * length_mm s - 3 * width s)) \<and>
              (\<forall>f t. force s ! i = Fin f \<longrightarrow> shear_angle s ! i = Fin t \<longrightarrow>
                 shear_torque s' ! i =
                   Fin ((length_mm s / width s - 1) * f * (cos (t / 2) - sin (t / 2)) /
                        (2 * length_mm s - 3 * width s))))"
proof -
  have k: "consistent s" by (rule specimen_consistent [OF assms])
  then have l: "length (force s) = number_mesures s" "length (shear_angle s) = number_mesures s"
    and w: "width s \<noteq> 0"
    by (simp_all add: consistent_def)
  have d: "2 * length_mm s - 3 * width s \<noteq> 0" by (rule consistent_mode_b_divisor [OF k])
  define c where "c = map (\<lambda>x. np_div x (Fin (2 * length_mm s - 3 * width s)))
                (map2 np_mul
                   (map (\<lambda>f. np_mul (Fin (length_mm s / width s - 1)) f) (force s))
                   (map (\<lambda>a. np_sub (np_cos (np_div a (Fin 2))) (np_sin (np_div a (Fin 2))))
                      (shear_angle s)))"
  have r: "calculate_shear_torque_2 s = Inr (s\<lparr>shear_torque := c, shear_torque_computed := True\<rparr>)"
    using l w by (subst calculate_shear_torque_2_eq_Inr) (simp_all add: c_def)
  have len: "length c = number_mesures s" using l by (simp add: c_def)
  have nth: "c ! i = np_div (np_mul (np_mul (Fin (length_mm s / width s - 1)) (force s ! i))
                               (np_sub (np_cos (np_div (shear_angle s ! i) (Fin 2)))
                                       (np_sin (np_div (shear_angle s ! i) (Fin 2)))))
                       (Fin (2 * length_mm s - 3 * width s))"
    if "i < number_mesures s" for i
    using that l by (simp add: c_def)
  have fin: "c ! i = Fin ((length_mm s / width s - 1) * f * (cos (t / 2) - sin (t / 2)) /
                        (2 * length_mm s - 3 * width s))"
    if "i < number_mesures s" "force s ! i = Fin f" "shear_angle s ! i = Fin t" for i f t
    using that d by (simp add: nth np_sub_def)
  from r len nth fin show ?thesis by auto
qed

text \<open>The three-sample input at index 1.\<close>

theorem mode_b_closed_form_witness:
  "\<exists>s'. calculate_shear_torque_2 half_angle_sample = Inr s' \<and>
     length (shear_torque s') = 3 \<and>
     shear_torque s' ! 1 =
       Fin ((2 / 1 - 1) * 1 * (cos (pi / 6 / 2) - sin (pi / 6 / 2)) / (2 * 2 - 3 * 1))"
proof -
  from mode_b_closed_form [OF half_angle_specimen]
  obtain s' where r: "calculate_shear_torque_2 half_angle_sample = Inr s'"
    and l: "length (shear_torque s') = number_mesures half_angle_sample"
    and v: "\<forall>i<number_mesures half_angle_sample.
        shear_torque s' ! i =
          np_div
            (np_mul
               (np_mul (Fin (length_mm half_angle_sample / width half_angle_sample - 1))
                       (force half_angle_sample ! i))
               (np_sub (np_cos (np_div (shear_angle half_angle_sample ! i) (Fin 2)))
                       (np_sin (np_div (shear_angle half_angle_sample ! i) (Fin 2)))))
            (Fin (2 * length_mm half_angle_sample - 3 * width half_angle_sample)) \<and>
        (\<forall>f t. force half_angle_sample ! i = Fin f \<longrightarrow>
           shear_angle half_angle_sample ! i = Fin t \<longrightarrow>
           shear_torque s' ! i =
             Fin ((length_mm half_angle_sample / width half_angle_sample - 1) * f *
                  (cos (t / 2) - sin (t / 2)) /
                  (2 * length_mm half_angle_sample - 3 * width half_angle_sample)))"
    by blast
  have "1 < number_mesures half_angle_sample" "force half_angle_sample ! 1 = Fin 1"
    "shear_angle half_angle_sample ! 1 = Fin (pi / 6)"
    by (simp_all add: half_angle_fields)
  with v have "shear_torque s' ! 1 =
      Fin ((length_mm half_angle_sample / width half_angle_sample - 1) * 1 *
           (cos (pi / 6 / 2) - sin (pi / 6 / 2)) /
           (2 * length_mm half_angle_sample - 3 * width half_angle_sample))"
    by blast
  then have "shear_torque s' ! 1 =
       Fin ((2 / 1 - 1) * 1 * (cos (pi / 6 / 2) - sin (pi / 6 / 2)) / (2 * 2 - 3 * 1))"
    by (simp only: half_angle_fields)
  with r l show ?thesis by (auto simp: half_angle_fields)
qed

section \<open>Shear force\<close>

lemma shear_force_when_computed:
  assumes sp: "specimen s1" and c: "shear_torque_computed s1"
  shows "\<exists>s'. calculate_shear_force s1 = Inr s' \<and>
           shear_torque s' = shear_torque s1 \<and>
           length (shear_force s') = number_mesures s1 \<and>
           (\<forall>i<number_mesures s1.
              shear_force s' ! i = np_div (shear_torque s1 ! i) (np_cos (shear_angle s1 ! i)))"
proof -
  from specimen_consistent [OF sp]
  have l: "length (shear_torque s1) = number_mesures s1"
    "length (shear_angle s1) = number_mesures s1"
    by (simp_all add: consistent_def)
  then have "length (shear_torque s1) = length (shear_angle s1)" by simp
  from calculate_shear_force_computed [OF c this] l show ?thesis by simp
qed

lemma shear_force_when_uncomputed:
  assumes sp: "specimen s" and n: "\<not> shear_torque_computed s"
    and t: "calculate_shear_torque s = Inr s1"
  shows "\<exists>s'. calculate_shear_force s = Inr s' \<and>
           shear_torque s' = shear_torque s1 \<and>
           length (shear_force s') = number_mesures s \<and>
           (\<forall>i<number_mesures s.
              shear_force s' ! i = np_div (shear_torque s1 ! i) (np_cos (shear_angle s ! i)))"
proof -
  have sp1: "specimen s1" by (rule specimen.after_torque [OF sp t])
  note f = calculate_shear_torque_frame [OF t]
  obtain c where s1: "s1 = s\<lparr>shear_torque := c, shear_torque_computed := True\<rparr>"
    using f(1) by blast
  have c1: "shear_torque_computed s1" by (simp add: s1)
  have e: "calculate_shear_force s = calculate_shear_force s1"
    using n t by (simp add: calculate_shear_force_uncomputed)
  have "number_mesures s1 = number_mesures s" "shear_angle s1 = shear_angle s"
    by (simp_all add: s1)
  with shear_force_when_computed [OF sp1 c1] e show ?thesis by simp
qed

lemma np_quotient_real:
  "x = Fin c \<Longrightarrow> a = Fin t \<Longrightarrow> cos t \<noteq> 0 \<Longrightarrow> np_div x (np_cos a) = Fin (c / cos t)"
  by simp

text \<open>
  C7. On a specimen whose torque is computed, \<open>calculate_shear_force\<close> succeeds,
  keeps the torque, and stores \<open>shear_torque[i] / cos(shear_angle[i])\<close> (numpy
  division) at every index: the real quotient \<open>c / cos t\<close> where the torque \<open>c\<close>
  and the angle \<open>t\<close> are finite and \<open>cos t\<close> is not zero. On a specimen whose
  torque is not computed it first runs \<open>calculate_shear_torque\<close> (Mode A): it
  fails as Mode A fails, and otherwise the torque it keeps and divides is the one
  Mode A returned.
\<close>

theorem shear_force_derivation:
  assumes "specimen s"
  shows "(shear_torque_computed s \<longrightarrow>
           (\<exists>s'. calculate_shear_force s = Inr s' \<and>
                 shear_torque s' = shear_torque s \<and>
                 length (shear_force s') = number_mesures s \<and>
                 (\<forall>i<number_mesures s.
                    shear_force s' ! i =
                      np_div (shear_torque s ! i) (np_cos (shear_angle s ! i)) \<and>
                    (\<forall>c t. shear_torque s ! i = Fin c \<longrightarrow> shear_angle s ! i = Fin t \<longrightarrow>
                       cos t \<noteq> 0 \<longrightarrow> shear_force s' ! i = Fin (c / cos t))))) \<and>
         (\<not> shear_torque_computed s \<longrightarrow>
            (\<forall>e. calculate_shear_torque s = Inl e \<longrightarrow> calculate_shear_force s = Inl e) \<and>
            (\<forall>s1. calculate_shear_torque s = Inr s1 \<longrightarrow>
               (\<exists>s'. calculate_shear_force s = Inr s' \<and>
                     shear_torque s' = shear_torque s1 \<and>
                     length (shear_force s') = number_mesures s \<and>
                     (\<forall>i<number_mesures s.
                        shear_force s' ! i =
                          np_div (shear_torque s1 ! i) (np_cos (shear_angle s ! i)) \<and>
                        (\<forall>c t. shear_torque s1 ! i = Fin c \<longrightarrow> shear_angle s ! i = Fin t \<longrightarrow>
                           cos t \<noteq> 0 \<longrightarrow> shear_force s' ! i = Fin (c / cos t))))))"
proof -
  have real: "\<forall>c t. x = Fin c \<longrightarrow> a = Fin t \<longrightarrow> cos t \<noteq> 0 \<longrightarrow> y = Fin (c / cos t)"
    if "y = np_div x (np_cos a)" for x a y
    using that by (simp add: np_quotient_real)
  have computed: "\<exists>s'. calculate_shear_force s = Inr s' \<and>
                 shear_torque s' = shear_torque s \<and>
                 length (shear_force s') = number_mesures s \<and>
                 (\<forall>i<number_mesures s.
                    shear_force s' ! i =
                      np_div (shear_torque s ! i) (np_cos (shear_angle s ! i)) \<and>
                    (\<forall>c t. shear_torque s ! i = Fin c \<longrightarrow> shear_angle s ! i = Fin t \<longrightarrow>
                       cos t \<noteq> 0 \<longrightarrow> shear_force s' ! i = Fin (c / cos t)))"
    if "shear_torque_computed s"
  proof -
    from shear_force_when_computed [OF assms that]
    obtain s' where a: "calculate_shear_force s = Inr s'" "shear_torque s' = shear_torque s"
      "length (shear_force s') = number_mesures s"
      and b: "\<forall>i<number_mesures s.
              shear_force s' ! i = np_div (shear_torque s ! i) (np_cos (shear_angle s ! i))"
      by blast
    from b real have "\<forall>i<number_mesures s.
        shear_force s' ! i = np_div (shear_torque s ! i) (np_cos (shear_angle s ! i)) \<and>
        (\<forall>c t. shear_torque s ! i = Fin c \<longrightarrow> shear_angle s ! i = Fin t \<longrightarrow>
           cos t \<noteq> 0 \<longrightarrow> shear_force s' ! i = Fin (c / cos t))"
      by blast
    with a show ?thesis by blast
  qed
  have uncomputed_err: "calculate_shear_force s = Inl e"
    if "\<not> shear_torque_computed s" "calculate_shear_torque s = Inl e" for e
    using that by (simp add: calculate_shear_force_uncomputed)
  have uncomputed: "\<exists>s'. calculate_shear_force s = Inr s' \<and>
                     shear_torque s' = shear_torque s1 \<and>
                     length (shear_force s') = number_mesures s \<and>
                     (\<forall>i<number_mesures s.
                        shear_force s' ! i =
                          np_div (shear_torque s1 ! i) (np_cos (shear_angle s ! i)) \<and>
                        (\<forall>c t. shear_torque s1 ! i = Fin c \<longrightarrow> shear_angle s ! i = Fin t \<longrightarrow>
                           cos t \<noteq> 0 \<longrightarrow> shear_force s' ! i = Fin (c / cos t)))"
    if "\<not> shear_torque_computed s" "calculate_shear_torque s = Inr s1" for s1
  proof -
    from shear_force_when_uncomputed [OF assms that]
    obtain s' where a: "calculate_shear_force s = Inr s'" "shear_torque s' = shear_torque s1"
      "length (shear_force s') = number_mesures s"
      and b: "\<forall>i<number_mesures s.
              shear_force s' ! i = np_div (shear_torque s1 ! i) (np_cos (shear_angle s ! i))"
      by blast
    from b real have "\<forall>i<number_mesures s.
        shear_force s' ! i = np_div (shear_torque s1 ! i) (np_cos (shear_angle s ! i)) \<and>
        (\<forall>c t. shear_torque s1 ! i = Fin c \<longrightarrow> shear_angle s ! i = Fin t \<longrightarrow>
           cos t \<noteq> 0 \<longrightarrow> shear_force s' ! i = Fin (c / cos t))"
      by blast
    with a show ?thesis by blast
  qed
  from computed uncomputed_err uncomputed show ?thesis by blast
qed

text \<open>
  The scenario at index 1, from the constructed object (Mode A runs first) and
  from the object Mode A returned: the force is \<open>c[1]\<close> over the cosine of the
  second shear angle, which lies strictly between 0 and \<open>pi/2\<close>.
\<close>

theorem shear_force_derivation_witness:
  "(\<exists>s'. calculate_shear_force scenario = Inr s' \<and>
      shear_torque s' = scenario_torque \<and>
      length (shear_force s') = 4 \<and>
      shear_force s' ! 1 = Fin (scenario_c1 / cos (scenario_theta 1))) \<and>
   (\<exists>s'. calculate_shear_force (projr (calculate_shear_torque scenario)) = Inr s' \<and>
      shear_torque s' = scenario_torque \<and>
      shear_force s' ! 1 = Fin (scenario_c1 / cos (scenario_theta 1)))"
proof -
  let ?s1 = "projr (calculate_shear_torque scenario)"
  note r = scenario_torque_Inr
  note f = calculate_shear_torque_frame [OF r]
  obtain c where s1: "?s1 = scenario\<lparr>shear_torque := c, shear_torque_computed := True\<rparr>"
    using f(1) by blast
  have same: "number_mesures ?s1 = number_mesures scenario"
    "shear_angle ?s1 = shear_angle scenario" "shear_torque_computed ?s1"
    by (subst s1, simp)+
  have n: "\<not> shear_torque_computed scenario"
    by (simp add: scenario_def BiasTest_init_Inr)
  have n2: "(1::nat) < number_mesures scenario"
    "shear_angle scenario ! 1 = Fin (scenario_theta 1)"
    by (simp_all add: scenario_fields scenario_shear)
  have flds: "shear_torque_computed ?s1" "number_mesures ?s1 = 4"
    "shear_angle ?s1 ! 1 = Fin (scenario_theta 1)"
    using same n2 by (simp_all add: scenario_fields)
  have t1: "shear_torque ?s1 ! 1 = Fin scenario_c1"
    using scenario_torque_low(3) by (simp add: scenario_torque_def)
  have "0 < scenario_theta 1" "scenario_theta 1 < pi / 2"
    using scenario_theta_pos [of 1] scenario_theta_less [of 1] by simp_all
  then have "0 < cos (scenario_theta 1)" by (intro cos_gt_zero_pi) simp_all
  then have cz: "cos (scenario_theta 1) \<noteq> 0" by simp
  have sp1: "specimen ?s1" by (rule specimen.after_torque [OF scenario_specimen r])
  from shear_force_derivation [OF scenario_specimen] n r
  obtain s' where a: "calculate_shear_force scenario = Inr s'"
    "shear_torque s' = shear_torque ?s1"
    "length (shear_force s') = number_mesures scenario"
    and b: "\<forall>i<number_mesures scenario.
        shear_force s' ! i = np_div (shear_torque ?s1 ! i) (np_cos (shear_angle scenario ! i)) \<and>
        (\<forall>c t. shear_torque ?s1 ! i = Fin c \<longrightarrow> shear_angle scenario ! i = Fin t \<longrightarrow>
           cos t \<noteq> 0 \<longrightarrow> shear_force s' ! i = Fin (c / cos t))"
    by blast
  from b n2 t1 cz have "shear_force s' ! 1 = Fin (scenario_c1 / cos (scenario_theta 1))"
    by blast
  with a have first: "\<exists>s'. calculate_shear_force scenario = Inr s' \<and>
      shear_torque s' = scenario_torque \<and>
      length (shear_force s') = 4 \<and>
      shear_force s' ! 1 = Fin (scenario_c1 / cos (scenario_theta 1))"
    by (auto simp: scenario_torque_def scenario_fields)
  from shear_force_derivation [OF sp1] flds(1)
  obtain s'' where a': "calculate_shear_force ?s1 = Inr s''"
    "shear_torque s'' = shear_torque ?s1"
    and b': "\<forall>i<number_mesures ?s1.
        shear_force s'' ! i = np_div (shear_torque ?s1 ! i) (np_cos (shear_angle ?s1 ! i)) \<and>
        (\<forall>c t. shear_torque ?s1 ! i = Fin c \<longrightarrow> shear_angle ?s1 ! i = Fin t \<longrightarrow>
           cos t \<noteq> 0 \<longrightarrow> shear_force s'' ! i = Fin (c / cos t))"
    by blast
  have "(1::nat) < number_mesures ?s1" by (simp add: flds(2))
  with b' flds(3) t1 cz have "shear_force s'' ! 1 = Fin (scenario_c1 / cos (scenario_theta 1))"
    by blast
  with a' have second: "\<exists>s'. calculate_shear_force ?s1 = Inr s' \<and>
      shear_torque s' = scenario_torque \<and>
      shear_force s' ! 1 = Fin (scenario_c1 / cos (scenario_theta 1))"
    by (auto simp: scenario_torque_def)
  from first second show ?thesis by blast
qed

end
